theory Spec2Isabelle
  imports Complex_Main "HOL-Library.Product_Lexorder" "HOL-Library.AList" "HOL-Library.Multiset"
begin

section \<open>Python values and errors\<close>

text \<open>
  The model follows \<^verbatim>\<open>halflife/coexpression.py\<close>. An uncaught Python exception is a
  value of \<open>error\<close>; every function that can raise returns \<open>error + 'a\<close>.
  Floating-point numbers are modelled by real numbers plus the not-a-number value that
  \<^verbatim>\<open>numpy.mean\<close> returns for an empty list; rounding and overflow are not modelled.
  Strings are lists of characters with code points below 256.
\<close>

datatype error = IndexError | KeyError | TypeError | AttributeError | ValueError
  | UnboundLocalError | FileNotFoundError

datatype npfloat = Fin real | NaN

text \<open>The Python objects that occur as dictionary values and tuple components.\<close>

datatype pyval = PStr string | PFloat npfloat | PNone | PList "real list"

definition np_mean :: "real list \<Rightarrow> npfloat" where
  "np_mean xs = (if xs = [] then NaN else Fin (sum_list xs / real (length xs)))"

text \<open>Comparison \<^verbatim>\<open>a > b\<close> of two floats: false as soon as one of them is not a number.\<close>

fun np_gt :: "npfloat \<Rightarrow> npfloat \<Rightarrow> bool" where
  "np_gt (Fin a) (Fin b) = (a > b)"
| "np_gt _ _ = False"

definition py_get :: "'a list \<Rightarrow> nat \<Rightarrow> error + 'a" where
  "py_get xs i = (if i < length xs then Inr (xs ! i) else Inl IndexError)"

text \<open>\<^verbatim>\<open>xs.index(x)\<close>; only called under the guard \<^verbatim>\<open>x in xs\<close>.\<close>

fun list_index :: "'a list \<Rightarrow> 'a \<Rightarrow> nat" where
  "list_index [] x = 0"
| "list_index (y # ys) x = (if y = x then 0 else Suc (list_index ys x))"

text \<open>Truth value of a string used as a condition: only the empty string is false.\<close>

definition py_truthy :: "string \<Rightarrow> bool" where
  "py_truthy s = (s \<noteq> [])"

section \<open>String operations\<close>

definition tab :: string where
  "tab = [CHR 0x09]"

definition newline :: string where
  "newline = [CHR 0x0A]"

definition py_isspace :: "char \<Rightarrow> bool" where
  "py_isspace c = ((of_char c :: nat) \<in> {9, 10, 11, 12, 13, 28, 29, 30, 31, 32, 133, 160})"

text \<open>\<^verbatim>\<open>s.split()\<close>: the maximal runs of non-whitespace characters.\<close>

fun split_ws_aux :: "string \<Rightarrow> string \<Rightarrow> string list" where
  "split_ws_aux cur [] = (if cur = [] then [] else [cur])"
| "split_ws_aux cur (c # cs) =
     (if py_isspace c then (if cur = [] then split_ws_aux [] cs else cur # split_ws_aux [] cs)
      else split_ws_aux (cur @ [c]) cs)"

definition py_split_ws :: "string \<Rightarrow> string list" where
  "py_split_ws s = split_ws_aux [] s"

text \<open>\<^verbatim>\<open>s.split(sep)\<close> for a one-character separator: always at least one field.\<close>

fun split_on_aux :: "char \<Rightarrow> string \<Rightarrow> string \<Rightarrow> string list" where
  "split_on_aux sep cur [] = [cur]"
| "split_on_aux sep cur (c # cs) =
     (if c = sep then cur # split_on_aux sep [] cs else split_on_aux sep (cur @ [c]) cs)"

definition py_split_tab :: "string \<Rightarrow> string list" where
  "py_split_tab s = split_on_aux (CHR 0x09) [] s"

definition py_strip :: "string \<Rightarrow> string" where
  "py_strip s = rev (dropWhile py_isspace (rev (dropWhile py_isspace s)))"

fun py_join :: "string \<Rightarrow> string list \<Rightarrow> string" where
  "py_join sep [] = []"
| "py_join sep [x] = x"
| "py_join sep (x # y # ys) = x @ sep @ py_join sep (y # ys)"

text \<open>
  \<^verbatim>\<open>s.title()\<close> on ASCII letters: the first letter of every run of letters in upper
  case, the others in lower case. Characters outside ASCII count as no letters here.
\<close>

definition is_upper :: "char \<Rightarrow> bool" where
  "is_upper c = (65 \<le> (of_char c :: nat) \<and> (of_char c :: nat) \<le> 90)"

definition is_lower :: "char \<Rightarrow> bool" where
  "is_lower c = (97 \<le> (of_char c :: nat) \<and> (of_char c :: nat) \<le> 122)"

definition to_upper :: "char \<Rightarrow> char" where
  "to_upper c = (if is_lower c then char_of ((of_char c :: nat) - 32) else c)"

definition to_lower :: "char \<Rightarrow> char" where
  "to_lower c = (if is_upper c then char_of ((of_char c :: nat) + 32) else c)"

fun title_aux :: "bool \<Rightarrow> string \<Rightarrow> string" where
  "title_aux prev [] = []"
| "title_aux prev (c # cs) =
     (if is_upper c \<or> is_lower c
      then (if prev then to_lower c else to_upper c) # title_aux True cs
      else c # title_aux False cs)"

definition py_title :: "string \<Rightarrow> string" where
  "py_title s = title_aux False s"

text \<open>
  The lines a text file yields when iterated: each ends with its line break, read as
  \<^verbatim>\<open>\n\<close> whether the file has \<^verbatim>\<open>\n\<close>, \<^verbatim>\<open>\r\<close> or \<^verbatim>\<open>\r\n\<close>; a last line
  without a line break is yielded as it is.
\<close>

fun file_lines_aux :: "string \<Rightarrow> string \<Rightarrow> string list" where
  "file_lines_aux cur [] = (if cur = [] then [] else [cur])"
| "file_lines_aux cur (c # cs) =
     (if c = CHR 0x0A then (cur @ newline) # file_lines_aux [] cs
      else if c = CHR 0x0D then
        (case cs of
           [] \<Rightarrow> [cur @ newline]
         | c' # cs' \<Rightarrow>
             if c' = CHR 0x0A then (cur @ newline) # file_lines_aux [] cs'
             else (cur @ newline) # file_lines_aux [] cs)
      else file_lines_aux (cur @ [c]) cs)"

definition file_lines :: "string \<Rightarrow> string list" where
  "file_lines content = file_lines_aux [] content"

text \<open>\<^verbatim>\<open>load_data\<close>: the whitespace-split lines of a file, the first as the header.\<close>

definition load_data :: "(string \<rightharpoonup> string) \<Rightarrow> string \<Rightarrow> error + (string list \<times> string list list)" where
  "load_data fs filename =
     (case fs filename of
        None \<Rightarrow> Inl FileNotFoundError
      | Some content \<Rightarrow>
          (let data = map py_split_ws (file_lines content)
           in (case data of
                 [] \<Rightarrow> Inl IndexError
               | header # rest \<Rightarrow> Inr (header, rest))))"

section \<open>Coexpression Aggregator\<close>

text \<open>
  A dictionary is an association list in insertion order; \<open>AList.update\<close> is the
  assignment \<^verbatim>\<open>d[k] = v\<close> (an existing key keeps its place, a new key goes last).
  The score source \<^verbatim>\<open>coex.get_coexpression\<close> is a parameter: \<open>None\<close> is "no data".
\<close>

type_synonym pydict = "(string \<times> pyval) list"

type_synonym score_source = "string \<Rightarrow> string \<Rightarrow> real option"

text \<open>\<^verbatim>\<open>avg_coex[protein].append(cor)\<close>\<close>

definition append_cor :: "pydict \<Rightarrow> string \<Rightarrow> real \<Rightarrow> error + pydict" where
  "append_cor d protein cor =
     (case map_of d protein of
        None \<Rightarrow> Inl KeyError
      | Some (PList l) \<Rightarrow> Inr (AList.update protein (PList (l @ [cor])) d)
      | Some _ \<Rightarrow> Inl AttributeError)"

text \<open>The inner loop \<^verbatim>\<open>for protein2 in avg_coex\<close> over the keys.\<close>

fun inner_loop :: "score_source \<Rightarrow> string \<Rightarrow> string list \<Rightarrow> pydict \<Rightarrow> error + pydict" where
  "inner_loop coex protein [] d = Inr d"
| "inner_loop coex protein (protein2 # rest) d =
     (if protein = protein2 then inner_loop coex protein rest d
      else (case coex protein protein2 of
              None \<Rightarrow> inner_loop coex protein rest d
            | Some cor \<Rightarrow>
                (case append_cor d protein cor of
                   Inl e \<Rightarrow> Inl e
                 | Inr d' \<Rightarrow> inner_loop coex protein rest d')))"

text \<open>
  The end of the outer loop's body: \<^verbatim>\<open>'NA'\<close> when the list is empty, its mean
  otherwise. On a value that is not a list, \<^verbatim>\<open>len\<close> or \<^verbatim>\<open>np.mean\<close> raises.
\<close>

definition finish :: "pydict \<Rightarrow> string \<Rightarrow> error + pydict" where
  "finish d protein =
     (case map_of d protein of
        None \<Rightarrow> Inl KeyError
      | Some (PList l) \<Rightarrow>
          Inr (AList.update protein
                 (if length l < 1 then PStr ''NA'' else PFloat (np_mean l)) d)
      | Some (PStr s) \<Rightarrow>
          (if length s < 1 then Inr (AList.update protein (PStr ''NA'') d) else Inl TypeError)
      | Some _ \<Rightarrow> Inl TypeError)"

fun outer_loop :: "score_source \<Rightarrow> string list \<Rightarrow> string list \<Rightarrow> pydict \<Rightarrow> error + pydict" where
  "outer_loop coex keys [] d = Inr d"
| "outer_loop coex keys (protein # rest) d =
     (case inner_loop coex protein keys d of
        Inl e \<Rightarrow> Inl e
      | Inr d1 \<Rightarrow>
          (case finish d1 protein of
             Inl e \<Rightarrow> Inl e
           | Inr d2 \<Rightarrow> outer_loop coex keys rest d2))"

definition calculate_avg_coexpression :: "score_source \<Rightarrow> string list \<Rightarrow> error + pydict" where
  "calculate_avg_coexpression coex members =
     (let avg_coex = fold (\<lambda>protein d. AList.update protein (PList []) d) members []
      in outer_loop coex (map fst avg_coex) (map fst avg_coex) avg_coex)"

section \<open>Identifier mapping and the Ambiguity Resolver\<close>

text \<open>
  A CORUM complex: one list of entrez ids per subunit slot, and the uniprot ids in a
  parallel structure.
\<close>

record corum_complex =
  entrez :: "string list list"
  uniprot :: "string list list"

text \<open>
  \<^verbatim>\<open>match_entrez_to_uniprot\<close>: the loop over the slot indices. Falling off the loop
  returns \<^verbatim>\<open>None\<close>; an index outside \<^verbatim>\<open>comp.uniprot\<close> raises.
\<close>

fun match_slots :: "corum_complex \<Rightarrow> string \<Rightarrow> nat list \<Rightarrow> error + pyval" where
  "match_slots cplx entrezid [] = Inr PNone"
| "match_slots cplx entrezid (i # rest) =
     (if entrezid \<in> set (entrez cplx ! i)
      then (case py_get (uniprot cplx) i of
              Inl e \<Rightarrow> Inl e
            | Inr us \<Rightarrow>
                (case py_get us (list_index (entrez cplx ! i) entrezid) of
                   Inl e \<Rightarrow> Inl e
                 | Inr u \<Rightarrow> Inr (PStr u)))
      else match_slots cplx entrezid rest)"

definition match_entrez_to_uniprot :: "corum_complex \<Rightarrow> string \<Rightarrow> error + pyval" where
  "match_entrez_to_uniprot cplx entrezid = match_slots cplx entrezid [0..<length (entrez cplx)]"

text \<open>\<^verbatim>\<open>decay_defs.get(upr, 'NA')\<close>; the keys of \<^verbatim>\<open>decay_defs\<close> are strings.\<close>

definition decay_get :: "(string \<rightharpoonup> string) \<Rightarrow> pyval \<Rightarrow> pyval" where
  "decay_get decay_defs upr =
     (case upr of
        PStr u \<Rightarrow> (case decay_defs u of Some l \<Rightarrow> PStr l | None \<Rightarrow> PStr ''NA'')
      | _ \<Rightarrow> PStr ''NA'')"

text \<open>
  The tuple \<^verbatim>\<open>(struc, sub, upr, coexpression, uprdef, species)\<close> both branches of the
  table builder construct for an entrez id.
\<close>

definition candidate_tuple ::
    "corum_complex \<Rightarrow> pydict \<Rightarrow> (string \<rightharpoonup> string) \<Rightarrow> string \<Rightarrow> string \<Rightarrow> string
     \<Rightarrow> error + pyval list" where
  "candidate_tuple cplx avg_coex decay_defs struc species sub =
     (case match_entrez_to_uniprot cplx sub of
        Inl e \<Rightarrow> Inl e
      | Inr upr \<Rightarrow>
          (case map_of avg_coex sub of
             None \<Rightarrow> Inl KeyError
           | Some coexpression \<Rightarrow>
               Inr [PStr struc, PStr sub, upr, coexpression, decay_get decay_defs upr,
                    PStr species]))"

text \<open>
  \<^verbatim>\<open>str(item)\<close>; the text of a float is a parameter \<open>fstr\<close> of the model.
\<close>

fun py_str :: "(npfloat \<Rightarrow> string) \<Rightarrow> pyval \<Rightarrow> string" where
  "py_str fstr (PStr s) = s"
| "py_str fstr (PFloat x) = fstr x"
| "py_str fstr PNone = ''None''"
| "py_str fstr (PList l) = ''['' @ py_join '', '' (map (\<lambda>x. fstr (Fin x)) l) @ '']''"

text \<open>
  The sort key \<^verbatim>\<open>(x.count('NA'), [x[3]].count('NA'))\<close>; pairs are compared
  lexicographically.
\<close>

definition rank_key :: "pyval list \<Rightarrow> nat \<times> nat" where
  "rank_key x = (count_list x (PStr ''NA''), count_list [x ! 3] (PStr ''NA''))"

fun possibilities ::
    "corum_complex \<Rightarrow> pydict \<Rightarrow> (string \<rightharpoonup> string) \<Rightarrow> string \<Rightarrow> string \<Rightarrow> string list
     \<Rightarrow> error + pyval list list" where
  "possibilities cplx avg_coex decay_defs struc species [] = Inr []"
| "possibilities cplx avg_coex decay_defs struc species (sub # rest) =
     (case candidate_tuple cplx avg_coex decay_defs struc species sub of
        Inl e \<Rightarrow> Inl e
      | Inr t \<Rightarrow>
          (case possibilities cplx avg_coex decay_defs struc species rest of
             Inl e \<Rightarrow> Inl e
           | Inr ts \<Rightarrow> Inr (t # ts)))"

text \<open>
  \<^verbatim>\<open>get_best_from_multiple_subs\<close>: \<^verbatim>\<open>list.sort\<close> is stable, as \<open>sort_key\<close> is;
  \<^verbatim>\<open>possibilities[0]\<close> raises on an empty list.
\<close>

definition get_best_from_multiple_subs ::
    "(npfloat \<Rightarrow> string) \<Rightarrow> corum_complex \<Rightarrow> pydict \<Rightarrow> (string \<rightharpoonup> string) \<Rightarrow> string \<Rightarrow> string
     \<Rightarrow> string list \<Rightarrow> error + string list" where
  "get_best_from_multiple_subs fstr cplx avg_coex decay_defs struc species subunits =
     (case possibilities cplx avg_coex decay_defs struc species subunits of
        Inl e \<Rightarrow> Inl e
      | Inr poss \<Rightarrow>
          (case sort_key rank_key poss of
             [] \<Rightarrow> Inl IndexError
           | best # _ \<Rightarrow> Inr (map (py_str fstr) best)))"

section \<open>Complex Table Builder\<close>

text \<open>The row of one subunit slot: lines 97 to 105 of the source.\<close>

definition slot_info ::
    "(npfloat \<Rightarrow> string) \<Rightarrow> corum_complex \<Rightarrow> pydict \<Rightarrow> (string \<rightharpoonup> string) \<Rightarrow> string \<Rightarrow> string
     \<Rightarrow> string list \<Rightarrow> error + string list" where
  "slot_info fstr cplx avg_coex decay_defs struc species subunit =
     (if length subunit = 1
      then (case candidate_tuple cplx avg_coex decay_defs struc species (subunit ! 0) of
              Inl e \<Rightarrow> Inl e
            | Inr info \<Rightarrow> Inr (map (py_str fstr) info))
      else get_best_from_multiple_subs fstr cplx avg_coex decay_defs struc species subunit)"

text \<open>
  The loop over the slots of a complex. A row is written as soon as it is built, so the
  result is the rows written and the exception that stopped the loop, if any.
\<close>

fun slots_loop ::
    "(npfloat \<Rightarrow> string) \<Rightarrow> corum_complex \<Rightarrow> pydict \<Rightarrow> (string \<rightharpoonup> string) \<Rightarrow> string \<Rightarrow> string
     \<Rightarrow> string list list \<Rightarrow> error option \<times> string list list" where
  "slots_loop fstr cplx avg_coex decay_defs struc species [] = (None, [])"
| "slots_loop fstr cplx avg_coex decay_defs struc species (subunit # rest) =
     (case slot_info fstr cplx avg_coex decay_defs struc species subunit of
        Inl e \<Rightarrow> (Some e, [])
      | Inr info \<Rightarrow>
          (case slots_loop fstr cplx avg_coex decay_defs struc species rest of
             (err, infos) \<Rightarrow> (err, info # infos)))"

text \<open>The body of the loop over the complexes, for one complex.\<close>

definition complex_infos ::
    "(npfloat \<Rightarrow> string) \<Rightarrow> score_source \<Rightarrow> (string \<rightharpoonup> string) \<Rightarrow> string \<Rightarrow> string
     \<Rightarrow> corum_complex \<Rightarrow> error option \<times> string list list" where
  "complex_infos fstr coex decay_defs species struc cplx =
     (let entrez_list = concat (entrez cplx)
      in (case calculate_avg_coexpression coex entrez_list of
            Inl e \<Rightarrow> (Some e, [])
          | Inr avg_coex \<Rightarrow>
              slots_loop fstr cplx avg_coex decay_defs struc species (entrez cplx)))"

text \<open>
  The complex database \<^verbatim>\<open>core\<close>: the ids \<^verbatim>\<open>core.strucs\<close> and the lookup
  \<^verbatim>\<open>core[struc]\<close>.
\<close>

record corum =
  strucs :: "string list"
  lookup :: "string \<rightharpoonup> corum_complex"

fun strucs_loop ::
    "(npfloat \<Rightarrow> string) \<Rightarrow> score_source \<Rightarrow> (string \<rightharpoonup> string) \<Rightarrow> string \<Rightarrow> corum
     \<Rightarrow> string list \<Rightarrow> error option \<times> string list list" where
  "strucs_loop fstr coex decay_defs species core [] = (None, [])"
| "strucs_loop fstr coex decay_defs species core (struc # rest) =
     (case lookup core struc of
        None \<Rightarrow> (Some KeyError, [])
      | Some cplx \<Rightarrow>
          (case complex_infos fstr coex decay_defs species struc cplx of
             (Some e, infos) \<Rightarrow> (Some e, infos)
           | (None, infos) \<Rightarrow>
               (case strucs_loop fstr coex decay_defs species core rest of
                  (err, infos') \<Rightarrow> (err, infos @ infos'))))"

text \<open>\<^verbatim>\<open>{line[0]: line[-1] for line in data}\<close>: a later line replaces an earlier one.\<close>

fun build_decay_defs :: "string list list \<Rightarrow> (string \<rightharpoonup> string) \<Rightarrow> error + (string \<rightharpoonup> string)" where
  "build_decay_defs [] m = Inr m"
| "build_decay_defs (line # rest) m =
     (if line = [] then Inl IndexError
      else build_decay_defs rest (m(hd line \<mapsto> last line)))"

text \<open>
  The world outside the program: the two external loaders, the file system, and the text
  of a float. What the program does to the world is the list of its events, in order.
\<close>

record env =
  LoadCorum :: "string \<Rightarrow> string \<Rightarrow> error + corum"
  Coexpression :: "error + score_source"
  files :: "string \<rightharpoonup> string"
  float_str :: "npfloat \<Rightarrow> string"

datatype event =
    CalledLoadCorum string string
  | CalledCoexpression
  | OpenRead string
  | OpenWrite string
  | Write string string

definition header_line :: string where
  "header_line = py_join tab [''comp'', ''entrez'', ''uniprot'', ''avg.coex'', ''def''] @ newline"

definition row_line :: "string list \<Rightarrow> string" where
  "row_line info = py_join tab info @ newline"

text \<open>
  The classification file a species selects; for any other species no branch of the
  \<^verbatim>\<open>if\<close>/\<^verbatim>\<open>elif\<close> runs and \<^verbatim>\<open>data\<close> stays unbound.
\<close>

definition species_file :: "string \<Rightarrow> string option" where
  "species_file species =
     (if species = ''human'' then Some ''data/NED_human.txt''
      else if species = ''mouse'' then Some ''data/NED_mouse_update.txt''
      else None)"

text \<open>Lines 86 to 106: the output file is opened, then the header and the rows are written.\<close>

definition write_table ::
    "env \<Rightarrow> string \<Rightarrow> corum \<Rightarrow> score_source \<Rightarrow> (string \<rightharpoonup> string) \<Rightarrow> error option \<times> event list" where
  "write_table w species core coex decay_defs =
     (let ofname = ''data/coexpressdb_corum_'' @ species @ ''.tsv''
      in (case strucs_loop (float_str w) coex decay_defs species core (strucs core) of
            (err, infos) \<Rightarrow>
              (err, [OpenWrite ofname, Write ofname header_line]
                    @ map (\<lambda>info. Write ofname (row_line info)) infos)))"

definition process_corum_data :: "env \<Rightarrow> string \<Rightarrow> error option \<times> event list" where
  "process_corum_data w species =
     (let t1 = [CalledLoadCorum (py_title species) ''core''];
          t2 = t1 @ [CalledCoexpression]
      in (case LoadCorum w (py_title species) ''core'' of
            Inl e \<Rightarrow> (Some e, t1)
          | Inr core \<Rightarrow>
              (case Coexpression w of
                 Inl e \<Rightarrow> (Some e, t2)
               | Inr coex \<Rightarrow>
                   (case species_file species of
                      None \<Rightarrow> (Some UnboundLocalError, t2)
                    | Some fname \<Rightarrow>
                        (case load_data (files w) fname of
                           Inl e \<Rightarrow> (Some e, t2 @ [OpenRead fname])
                         | Inr (header, data) \<Rightarrow>
                             (case build_decay_defs data Map.empty of
                                Inl e \<Rightarrow> (Some e, t2 @ [OpenRead fname])
                              | Inr decay_defs \<Rightarrow>
                                  (case write_table w species core coex decay_defs of
                                     (err, evs) \<Rightarrow> (err, t2 @ [OpenRead fname] @ evs))))))))"

text \<open>The text of a file after a run: what was written to it since it was last opened.\<close>

fun written :: "string \<Rightarrow> event list \<Rightarrow> string option \<Rightarrow> string option" where
  "written name [] acc = acc"
| "written name (OpenWrite n # evs) acc = written name evs (if n = name then Some [] else acc)"
| "written name (Write n s # evs) acc =
     written name evs (if n = name then map_option (\<lambda>c. c @ s) acc else acc)"
| "written name (_ # evs) acc = written name evs acc"

section \<open>Paired Significance Tester\<close>

text \<open>
  The rows read from the table: the comprehension keeps a line when its condition, the
  constant \<^verbatim>\<open>''\<close>, is true.
\<close>

definition read_rows :: "string \<Rightarrow> string list list" where
  "read_rows content =
     map (\<lambda>line. py_split_tab (py_strip line))
       (filter (\<lambda>line. py_truthy '''') (file_lines content))"

text \<open>The slice \<^verbatim>\<open>line[-3:-1]\<close>.\<close>

definition slice_m3_m1 :: "string list \<Rightarrow> string list" where
  "slice_m3_m1 line = drop (length line - 3) (butlast line)"

type_synonym grouped = "(string \<times> string list list) list"

text \<open>\<^verbatim>\<open>strucs = {line[0]: [] for line in data}\<close>\<close>

fun init_strucs :: "string list list \<Rightarrow> grouped \<Rightarrow> error + grouped" where
  "init_strucs [] d = Inr d"
| "init_strucs (line # rest) d =
     (case py_get line 0 of
        Inl e \<Rightarrow> Inl e
      | Inr k \<Rightarrow> init_strucs rest (AList.update k [] d))"

text \<open>\<^verbatim>\<open>strucs[line[0]].append(tuple(line[-3:-1]))\<close>\<close>

fun fill_strucs :: "string list list \<Rightarrow> grouped \<Rightarrow> error + grouped" where
  "fill_strucs [] d = Inr d"
| "fill_strucs (line # rest) d =
     (case py_get line 0 of
        Inl e \<Rightarrow> Inl e
      | Inr k \<Rightarrow>
          (case map_of d k of
             None \<Rightarrow> Inl KeyError
           | Some rows \<Rightarrow> fill_strucs rest (AList.update k (rows @ [slice_m3_m1 line]) d)))"

definition group_rows :: "string list list \<Rightarrow> error + grouped" where
  "group_rows data =
     (case init_strucs data [] of
        Inl e \<Rightarrow> Inl e
      | Inr d \<Rightarrow> fill_strucs data d)"

text \<open>
  The null-shuffle branch. \<^verbatim>\<open>random.shuffle\<close> is the parameter \<open>shuffle\<close>, a
  function of the state of the random generator: it returns a permutation of its
  argument and the next state, so that every call can permute differently.
\<close>

fun def_dist_of :: "string list list \<Rightarrow> error + string list" where
  "def_dist_of [] = Inr []"
| "def_dist_of (subunit # rest) =
     (case py_get subunit 1 of
        Inl e \<Rightarrow> Inl e
      | Inr l \<Rightarrow> (case def_dist_of rest of Inl e \<Rightarrow> Inl e | Inr ls \<Rightarrow> Inr (l # ls)))"

definition relabel ::
    "('r \<Rightarrow> string list \<Rightarrow> string list \<times> 'r) \<Rightarrow> 'r \<Rightarrow> string list list
     \<Rightarrow> error + (string list list \<times> 'r)" where
  "relabel shuffle rng cplx =
     (case def_dist_of cplx of
        Inl e \<Rightarrow> Inl e
      | Inr def_dist \<Rightarrow>
          (case shuffle rng def_dist of
             (shuffled, rng') \<Rightarrow>
               Inr (map2 (\<lambda>subunit l. [subunit ! 0, l]) cplx shuffled, rng')))"

text \<open>
  The loop over the rows of a complex: \<^verbatim>\<open>float\<close> is the parameter \<open>pyfloat\<close>, \<open>None\<close>
  where it raises.
\<close>

fun partition_vals ::
    "(string \<Rightarrow> real option) \<Rightarrow> string list list \<Rightarrow> real list \<Rightarrow> real list
     \<Rightarrow> error + (real list \<times> real list)" where
  "partition_vals pyfloat [] nvals evals = Inr (nvals, evals)"
| "partition_vals pyfloat (subunit # rest) nvals evals =
     (case py_get subunit 0 of
        Inl e \<Rightarrow> Inl e
      | Inr v \<Rightarrow>
          if v = ''NA'' then partition_vals pyfloat rest nvals evals
          else (case py_get subunit 1 of
                  Inl e \<Rightarrow> Inl e
                | Inr l \<Rightarrow>
                    if l = ''NED'' then
                      (case pyfloat v of
                         None \<Rightarrow> Inl ValueError
                       | Some x \<Rightarrow> partition_vals pyfloat rest (nvals @ [x]) evals)
                    else if l = ''ED'' then
                      (case pyfloat v of
                         None \<Rightarrow> Inl ValueError
                       | Some x \<Rightarrow> partition_vals pyfloat rest nvals (evals @ [x]))
                    else partition_vals pyfloat rest nvals evals))"

text \<open>
  The body of the loop over the complexes: \<open>None\<close> when the complex is skipped,
  \<open>Some b\<close> when it is a trial, \<open>b\<close> telling whether it is a success, together with
  the state of the random generator afterwards. The global \<^verbatim>\<open>rand\<close>, which nothing in
  the file assigns, is a parameter.
\<close>

definition complex_trial ::
    "bool \<Rightarrow> ('r \<Rightarrow> string list \<Rightarrow> string list \<times> 'r) \<Rightarrow> 'r \<Rightarrow> (string \<Rightarrow> real option)
     \<Rightarrow> string list list \<Rightarrow> error + (bool option \<times> 'r)" where
  "complex_trial rand shuffle rng pyfloat comp0 =
     (case (if rand then relabel shuffle rng comp0 else Inr (comp0, rng)) of
        Inl e \<Rightarrow> Inl e
      | Inr (cplx, rng') \<Rightarrow>
          if length cplx \<le> 2 then Inr (None, rng')
          else (case partition_vals pyfloat cplx [] [] of
                  Inl e \<Rightarrow> Inl e
                | Inr (nvals, evals) \<Rightarrow>
                    if length nvals = 0 \<or> length evals = 0 \<or> nvals = evals
                    then Inr (None, rng')
                    else Inr (Some (np_gt (np_mean nvals) (np_mean evals)), rng')))"

fun trials_loop ::
    "bool \<Rightarrow> ('r \<Rightarrow> string list \<Rightarrow> string list \<times> 'r) \<Rightarrow> 'r \<Rightarrow> (string \<Rightarrow> real option)
     \<Rightarrow> grouped \<Rightarrow> nat \<Rightarrow> nat \<Rightarrow> error + (nat \<times> nat)" where
  "trials_loop rand shuffle rng pyfloat [] success trials = Inr (success, trials)"
| "trials_loop rand shuffle rng pyfloat ((struc, cplx) # rest) success trials =
     (case complex_trial rand shuffle rng pyfloat cplx of
        Inl e \<Rightarrow> Inl e
      | Inr (None, rng') \<Rightarrow> trials_loop rand shuffle rng' pyfloat rest success trials
      | Inr (Some b, rng') \<Rightarrow>
          trials_loop rand shuffle rng' pyfloat rest
            (if b then success + 1 else success) (trials + 1))"

text \<open>
  Modelled from the spec: \<^verbatim>\<open>scipy.stats.binom_test\<close> is a library function outside the
  repository. The specification calls it the exact two-sided binomial test against the
  success probability one half: the probability, under that null, of the outcomes that
  are at most as likely as the observed one.
\<close>

definition binom_pmf :: "nat \<Rightarrow> nat \<Rightarrow> real" where
  "binom_pmf n k = real (n choose k) / 2 ^ n"

definition binom_test :: "nat \<Rightarrow> nat \<Rightarrow> real" where
  "binom_test x n = (\<Sum>k\<leftarrow>[0..<Suc n]. if binom_pmf n k \<le> binom_pmf n x then binom_pmf n k else 0)"

text \<open>\<^verbatim>\<open>analyse_corum_data\<close>: the three printed values are the result.\<close>

definition analyse_corum_data ::
    "bool \<Rightarrow> ('r \<Rightarrow> string list \<Rightarrow> string list \<times> 'r) \<Rightarrow> 'r \<Rightarrow> (string \<Rightarrow> real option)
     \<Rightarrow> (string \<rightharpoonup> string) \<Rightarrow> string \<Rightarrow> error + (nat \<times> nat \<times> real)" where
  "analyse_corum_data rand shuffle rng pyfloat fs filename =
     (case fs filename of
        None \<Rightarrow> Inl FileNotFoundError
      | Some content \<Rightarrow>
          (case group_rows (read_rows content) of
             Inl e \<Rightarrow> Inl e
           | Inr grouped_strucs \<Rightarrow>
               (case trials_loop rand shuffle rng pyfloat grouped_strucs 0 0 of
                  Inl e \<Rightarrow> Inl e
                | Inr (success, trials) \<Rightarrow> Inr (success, trials, binom_test success trials))))"

section \<open>Reference definitions for the statements\<close>

text \<open>
  The partners of \<open>p\<close> with a defined score, and the mean the specification asks for: the
  unweighted mean over these partners, \<^verbatim>\<open>'NA'\<close> when there is none.
\<close>

definition usable :: "score_source \<Rightarrow> string list \<Rightarrow> string \<Rightarrow> string set" where
  "usable coex members p = set (filter (\<lambda>q. q \<noteq> p \<and> coex p q \<noteq> None) members)"

definition mean_of_partners :: "score_source \<Rightarrow> string list \<Rightarrow> string \<Rightarrow> pyval" where
  "mean_of_partners coex members p =
     (if usable coex members p = {} then PStr ''NA''
      else PFloat (Fin ((\<Sum>q\<in>usable coex members p. the (coex p q))
                         / real (card (usable coex members p)))))"

text \<open>The scores an iteration of the outer loop collects, in key order.\<close>

definition collected :: "score_source \<Rightarrow> string \<Rightarrow> string list \<Rightarrow> real list" where
  "collected coex p ks = List.map_filter (\<lambda>q. if q = p then None else coex p q) ks"

definition fin :: "score_source \<Rightarrow> string list \<Rightarrow> string \<Rightarrow> pyval" where
  "fin coex ks p =
     (let l = collected coex p ks in if length l < 1 then PStr ''NA'' else PFloat (np_mean l))"

text \<open>A small score source: 1-2 scores 2, 1-3 scores 1, every other pair has no data.\<close>

definition example_coex :: score_source where
  "example_coex a b =
     (if (a = ''1'' \<and> b = ''2'') \<or> (a = ''2'' \<and> b = ''1'') then Some 2
      else if (a = ''1'' \<and> b = ''3'') \<or> (a = ''3'' \<and> b = ''1'') then Some 1
      else None)"

section \<open>Reference definitions for the Significance Tester\<close>


text \<open>
  The grouping the specification describes, of every line of the table: the tester's own
  grouping without the condition of its comprehension.
\<close>

definition all_rows :: "string \<Rightarrow> string list list" where
  "all_rows content = map (\<lambda>line. py_split_tab (py_strip line)) (file_lines content)"

text \<open>
  Example inputs: \<^verbatim>\<open>float\<close> on three numerals, a shuffle that reverses and counts its
  calls, a complex whose partitions hold the same values in another order, and tables
  as the builder writes them.
\<close>

definition example_float :: "string \<Rightarrow> real option" where
  "example_float s =
     (if s = ''1'' then Some 1 else if s = ''2'' then Some 2 else if s = ''3'' then Some 3
      else None)"

definition example_shuffle :: "nat \<Rightarrow> string list \<Rightarrow> string list \<times> nat" where
  "example_shuffle n ls = (rev ls, Suc n)"

definition example_swapped :: "string list list" where
  "example_swapped = [[''1'', ''NED''], [''2'', ''NED''], [''2'', ''ED''], [''1'', ''ED'']]"

definition example_table :: string where
  "example_table =
     header_line @ row_line [''c1'', ''1'', ''P1'', ''1.0'', ''NED'', ''human'']
       @ row_line [''c1'', ''2'', ''P2'', ''2.0'', ''ED'', ''human'']
       @ row_line [''c1'', ''3'', ''P3'', ''3.0'', ''ED'', ''human'']"


text \<open>
  The table of the specification's third scenario: in complex \<open>c1\<close> the NED mean is
  below the ED mean, in complex \<open>c2\<close> above it.
\<close>

definition scenario_table :: string where
  "scenario_table =
     header_line @ row_line [''c1'', ''11'', ''P1'', ''1'', ''NED'', ''human'']
       @ row_line [''c1'', ''12'', ''P2'', ''2'', ''ED'', ''human'']
       @ row_line [''c1'', ''13'', ''P3'', ''3'', ''ED'', ''human'']
       @ row_line [''c2'', ''21'', ''Q1'', ''3'', ''NED'', ''human'']
       @ row_line [''c2'', ''22'', ''Q2'', ''1'', ''ED'', ''human'']
       @ row_line [''c2'', ''23'', ''Q3'', ''2'', ''ED'', ''human'']"

section \<open>Example inputs for the table builder\<close>

definition example_complex :: corum_complex where
  "example_complex =
     \<lparr>entrez = [[''1''], [''2'', ''3'']], uniprot = [[''P1''], [''P2'', ''P3'']]\<rparr>"

definition example_avg :: pydict where
  "example_avg =
     [(''1'', PFloat (Fin (3 / 2))), (''2'', PFloat (Fin 2)), (''3'', PFloat (Fin 1))]"

definition example_decay :: "string \<rightharpoonup> string" where
  "example_decay = [''P1'' \<mapsto> ''NED'', ''P3'' \<mapsto> ''ED'']"

definition example_fstr :: "npfloat \<Rightarrow> string" where
  "example_fstr x =
     (case x of
        NaN \<Rightarrow> ''nan''
      | Fin r \<Rightarrow> if r = 1 then ''1.0'' else if r = 2 then ''2.0''
                 else if r = 3 / 2 then ''1.5'' else ''?'')"

section \<open>Reference definitions for the table builder\<close>

text \<open>
  \<open>first_slot\<close> is the first slot of the complex that holds an entrez id; the id is
  resolvable when the uniprot structure has the position aligned with it, and
  \<open>aligned_id\<close> is the uniprot id at that position. \<open>row_of\<close> is the row the specification
  describes for an id, \<open>tuple_of\<close> the tuple before it is turned into text, and
  \<open>avg_ok\<close> says that a dictionary holds the mean of the partners for every id of the
  complex.
\<close>

definition first_slot :: "corum_complex \<Rightarrow> string \<Rightarrow> nat option" where
  "first_slot c e = List.find (\<lambda>i. e \<in> set (entrez c ! i)) [0..<length (entrez c)]"

definition resolvable :: "corum_complex \<Rightarrow> string \<Rightarrow> bool" where
  "resolvable c e =
     (case first_slot c e of
        None \<Rightarrow> False
      | Some i \<Rightarrow> i < length (uniprot c) \<and> list_index (entrez c ! i) e < length (uniprot c ! i))"

definition aligned_id :: "corum_complex \<Rightarrow> string \<Rightarrow> string" where
  "aligned_id c e =
     (let i = the (first_slot c e) in uniprot c ! i ! list_index (entrez c ! i) e)"

definition row_of ::
    "(npfloat \<Rightarrow> string) \<Rightarrow> score_source \<Rightarrow> (string \<rightharpoonup> string) \<Rightarrow> string \<Rightarrow> string
     \<Rightarrow> corum_complex \<Rightarrow> string \<Rightarrow> string list" where
  "row_of fstr coex decay_defs species struc c e =
     [struc, e, aligned_id c e,
      py_str fstr (mean_of_partners coex (concat (entrez c)) e),
      (case decay_defs (aligned_id c e) of None \<Rightarrow> ''NA'' | Some l \<Rightarrow> l),
      species]"

definition avg_ok :: "score_source \<Rightarrow> corum_complex \<Rightarrow> pydict \<Rightarrow> bool" where
  "avg_ok coex c avg =
     (\<forall>p\<in>set (concat (entrez c)). map_of avg p = Some (mean_of_partners coex (concat (entrez c)) p))"

definition tuple_of ::
    "score_source \<Rightarrow> (string \<rightharpoonup> string) \<Rightarrow> string \<Rightarrow> string \<Rightarrow> corum_complex \<Rightarrow> string
     \<Rightarrow> pyval list" where
  "tuple_of coex decay_defs species struc c e =
     [PStr struc, PStr e, PStr (aligned_id c e), mean_of_partners coex (concat (entrez c)) e,
      decay_get decay_defs (PStr (aligned_id c e)), PStr species]"

definition broken_complex :: corum_complex where
  "broken_complex =
     \<lparr>entrez = [[''1''], [''2'', ''3'']], uniprot = [[''P1''], [''P2'']]\<rparr>"

text \<open>
  A slot at which the builder cannot write a row: it is empty, or one of its ids is not
  resolvable. \<open>lone_complex\<close> has a single protein, \<open>gap_complex\<close> an empty slot and
  no identifier problem.
\<close>

definition failing_slot :: "corum_complex \<Rightarrow> string list \<Rightarrow> bool" where
  "failing_slot c slot = (slot = [] \<or> (\<exists>e\<in>set slot. \<not> resolvable c e))"

definition lone_complex :: corum_complex where
  "lone_complex = \<lparr>entrez = [[''4'']], uniprot = [[''P4'']]\<rparr>"

definition gap_complex :: corum_complex where
  "gap_complex = \<lparr>entrez = [[''1''], []], uniprot = [[''P1''], []]\<rparr>"

section \<open>An example world\<close>

text \<open>
  A complex database with the one complex \<open>example_complex\<close>, the score source
  \<open>example_coex\<close>, a classification file for the species human, and the table the
  builder writes in this world.
\<close>

definition example_core :: corum where
  "example_core = \<lparr>strucs = [''c1''], lookup = [''c1'' \<mapsto> example_complex]\<rparr>"

definition example_env :: env where
  "example_env =
     \<lparr>LoadCorum = (\<lambda>species kind. Inr example_core),
      Coexpression = Inr example_coex,
      files = [''data/NED_human.txt'' \<mapsto> ''id def\<newline>P1 NED\<newline>P3 ED\<newline>''],
      float_str = example_fstr\<rparr>"

definition example_output :: string where
  "example_output =
     header_line @ row_line [''c1'', ''1'', ''P1'', ''1.5'', ''NED'', ''human'']
       @ row_line [''c1'', ''3'', ''P3'', ''1.0'', ''ED'', ''human'']"

text \<open>The same world with a complex database that holds one of the defective complexes.\<close>

definition broken_core :: corum where
  "broken_core = \<lparr>strucs = [''c1''], lookup = [''c1'' \<mapsto> broken_complex]\<rparr>"

definition gap_core :: corum where
  "gap_core = \<lparr>strucs = [''c1''], lookup = [''c1'' \<mapsto> gap_complex]\<rparr>"

definition broken_env :: env where
  "broken_env = example_env\<lparr>LoadCorum := (\<lambda>species kind. Inr broken_core)\<rparr>"

definition gap_env :: env where
  "gap_env = example_env\<lparr>LoadCorum := (\<lambda>species kind. Inr gap_core)\<rparr>"

section \<open>The aggregator computes the mean over the partners\<close>

lemma collected_Nil [simp]: "collected coex p [] = []"
  by (simp add: collected_def List.map_filter_simps)

lemma collected_Cons:
  "collected coex p (q # ks) =
     (if q = p then collected coex p ks
      else (case coex p q of None \<Rightarrow> collected coex p ks | Some c \<Rightarrow> c # collected coex p ks))"
  by (simp add: collected_def List.map_filter_simps split: option.splits)

lemma inner_loop_ok:
  "map_of d p = Some (PList l) \<Longrightarrow>
   \<exists>d'. inner_loop coex p ks d = Inr d' \<and> map fst d' = map fst d \<and>
        map_of d' = (map_of d)(p \<mapsto> PList (l @ collected coex p ks))"
proof (induction ks arbitrary: d l)
  case Nil
  then show ?case by (auto simp: fun_eq_iff)
next
  case (Cons q ks)
  show ?case
  proof (cases "q = p")
    case True
    with Cons show ?thesis by (simp add: collected_Cons)
  next
    case qp: False
    show ?thesis
    proof (cases "coex p q")
      case None
      with qp Cons show ?thesis by (simp add: collected_Cons)
    next
      case (Some c)
      let ?d1 = "AList.update p (PList (l @ [c])) d"
      have a: "append_cor d p c = Inr ?d1"
        using Cons.prems by (simp add: append_cor_def)
      have m: "map_of ?d1 p = Some (PList (l @ [c]))"
        by (simp add: update_conv')
      have k: "map fst ?d1 = map fst d"
        using Cons.prems by (simp add: update_keys map_of_eq_None_iff[symmetric] del: map_of_eq_None_iff) 
      from Cons.IH[OF m] obtain d' where
        d': "inner_loop coex p ks ?d1 = Inr d'" "map fst d' = map fst ?d1"
            "map_of d' = (map_of ?d1)(p \<mapsto> PList ((l @ [c]) @ collected coex p ks))"
        by blast
      show ?thesis
        using qp Some a d' k by (auto simp: collected_Cons update_conv')
    qed
  qed
qed

lemma finish_ok:
  "map_of d p = Some (PList l) \<Longrightarrow>
   \<exists>d'. finish d p = Inr d' \<and> map fst d' = map fst d \<and>
        map_of d' = (map_of d)(p \<mapsto> (if length l < 1 then PStr ''NA'' else PFloat (np_mean l)))"
  by (auto simp: finish_def update_conv' update_keys map_of_eq_None_iff[symmetric] simp del: map_of_eq_None_iff)

lemma outer_loop_ok:
  "distinct ps \<Longrightarrow> (\<forall>p\<in>set ps. map_of d p = Some (PList [])) \<Longrightarrow>
   \<exists>d'. outer_loop coex keys ps d = Inr d' \<and> map fst d' = map fst d \<and>
        (\<forall>p. map_of d' p = (if p \<in> set ps then Some (fin coex keys p) else map_of d p))"
proof (induction ps arbitrary: d)
  case Nil
  then show ?case by simp
next
  case (Cons p ps)
  have mp: "map_of d p = Some (PList [])" using Cons.prems by simp
  from inner_loop_ok[OF mp, of coex keys] obtain d1 where
    d1: "inner_loop coex p keys d = Inr d1" "map fst d1 = map fst d"
        "map_of d1 = (map_of d)(p \<mapsto> PList ([] @ collected coex p keys))"
    by blast
  have m1: "map_of d1 p = Some (PList (collected coex p keys))" using d1(3) by simp
  from finish_ok[OF m1] obtain d2 where
    d2: "finish d1 p = Inr d2" "map fst d2 = map fst d1"
        "map_of d2 = (map_of d1)(p \<mapsto> fin coex keys p)"
    by (auto simp: fin_def Let_def)
  have pre: "\<forall>q\<in>set ps. map_of d2 q = Some (PList [])"
    using Cons.prems d1(3) d2(3) by auto
  have dps: "distinct ps" using Cons.prems by simp
  from Cons.IH[OF dps pre] obtain d' where
    d': "outer_loop coex keys ps d2 = Inr d'" "map fst d' = map fst d2"
        "\<forall>q. map_of d' q = (if q \<in> set ps then Some (fin coex keys q) else map_of d2 q)"
    by blast
  show ?case
    using d1 d2 d' Cons.prems by (auto)
qed

lemma set_update_subset:
  "(k, w) \<in> set (AList.update a v d) \<Longrightarrow> (k, w) \<in> set d \<or> (k, w) = (a, v)"
  by (induction d) (auto split: if_splits)

lemma init_dict:
  "distinct (map fst d) \<Longrightarrow> (\<forall>(k, w)\<in>set d. w = v) \<Longrightarrow>
   distinct (map fst (fold (\<lambda>protein d. AList.update protein v d) members d)) \<and>
   fst ` set (fold (\<lambda>protein d. AList.update protein v d) members d) = fst ` set d \<union> set members \<and>
   (\<forall>(k, w)\<in>set (fold (\<lambda>protein d. AList.update protein v d) members d). w = v)"
proof (induction members arbitrary: d)
  case Nil then show ?case by simp
next
  case (Cons m ms)
  have 1: "distinct (map fst (AList.update m v d))"
    using Cons.prems(1) by (simp add: distinct_update)
  have 2: "\<forall>(k, w)\<in>set (AList.update m v d). w = v"
    using Cons.prems(2) set_update_subset[of _ _ m v d] by blast
  from Cons.IH[OF 1 2] show ?case by (simp add: dom_update Un_assoc)
qed


lemma collected_filter:
  "collected coex p ks = map (\<lambda>q. the (coex p q)) (filter (\<lambda>q. q \<noteq> p \<and> coex p q \<noteq> None) ks)"
  by (induction ks) (auto simp: collected_Cons split: option.splits)

lemma fin_mean_of_partners:
  assumes "distinct ks" "set ks = set members"
  shows "fin coex ks p = mean_of_partners coex members p"
proof -
  let ?F = "filter (\<lambda>q. q \<noteq> p \<and> coex p q \<noteq> None) ks"
  have U: "usable coex members p = set ?F"
    using assms(2) by (auto simp: usable_def)
  have d: "distinct ?F" using assms(1) by simp
  have len: "length (collected coex p ks) = card (set ?F)"
    by (simp only: collected_filter length_map distinct_card[OF d])
  have sm: "sum_list (collected coex p ks) = (\<Sum>q\<in>set ?F. the (coex p q))"
    using d by (simp add: collected_filter sum_list_distinct_conv_sum_set)
  have e: "collected coex p ks = [] \<longleftrightarrow> set ?F = {}"
    by (simp only: collected_filter map_is_Nil_conv set_empty)
  show ?thesis
  proof (cases "set ?F = {}")
    case True
    then show ?thesis using e U by (simp add: fin_def mean_of_partners_def)
  next
    case False
    then have "collected coex p ks \<noteq> []" using e by simp
    then show ?thesis
      using False U len sm
      by (simp add: fin_def mean_of_partners_def np_mean_def Let_def)
  qed
qed

lemma calculate_avg_coexpression_fin:
  "\<exists>d ks. calculate_avg_coexpression coex members = Inr d \<and> map fst d = ks \<and>
       distinct ks \<and> set ks = set members \<and>
       (\<forall>p\<in>set members. map_of d p = Some (fin coex ks p))"
proof -
  let ?d0 = "fold (\<lambda>protein d. AList.update protein (PList []) d) members []"
  let ?ks = "map fst ?d0"
  have i: "distinct ?ks" "fst ` set ?d0 = set members" "\<forall>(k, w)\<in>set ?d0. w = PList []"
    using init_dict[of "[]" "PList []" members] by simp_all
  have v: "\<forall>p\<in>set ?ks. map_of ?d0 p = Some (PList [])"
  proof
    fix p assume "p \<in> set ?ks"
    then obtain w where "(p, w) \<in> set ?d0" by auto
    then show "map_of ?d0 p = Some (PList [])" using i(1) i(3) by auto
  qed
  from outer_loop_ok[OF i(1) v, of coex ?ks] obtain d where
    d: "outer_loop coex ?ks ?ks ?d0 = Inr d" "map fst d = ?ks"
       "\<forall>p. map_of d p = (if p \<in> set ?ks then Some (fin coex ?ks p) else map_of ?d0 p)"
    by blast
  have ks: "set ?ks = set members" using i(2) by simp
  have m: "\<forall>p\<in>set members. map_of d p = Some (fin coex ?ks p)"
    using d(3) ks by simp
  have c: "calculate_avg_coexpression coex members = Inr d"
    using d(1) by (simp add: calculate_avg_coexpression_def Let_def)
  from c d(2) i(1) ks m show ?thesis by blast
qed

text \<open>
  Claim C1. For every membership list and every score source the aggregator returns a
  dictionary whose keys are the ids of the list, each once, and whose value for an id is
  the unweighted mean of the defined scores between that id and every other id of the
  list (each other id once, however often the list repeats it), or \<^verbatim>\<open>'NA'\<close> when no such score exists; for a list that holds a single id the
  value is \<^verbatim>\<open>'NA'\<close>.
\<close>

theorem calculate_avg_coexpression_mean:
  "\<exists>d. calculate_avg_coexpression coex members = Inr d \<and>
       distinct (map fst d) \<and> set (map fst d) = set members \<and>
       (\<forall>p\<in>set members. map_of d p = Some (mean_of_partners coex members p)) \<and>
       (\<forall>p. set members = {p} \<longrightarrow> map_of d p = Some (PStr ''NA''))"
proof -
  from calculate_avg_coexpression_fin[of coex members] obtain d ks where
    d: "calculate_avg_coexpression coex members = Inr d" "map fst d = ks" "distinct ks"
       "set ks = set members" "\<forall>p\<in>set members. map_of d p = Some (fin coex ks p)"
    by blast
  have m: "\<forall>p\<in>set members. map_of d p = Some (mean_of_partners coex members p)"
    using d(5) fin_mean_of_partners[OF d(3) d(4)] by simp
  have s: "\<forall>p. set members = {p} \<longrightarrow> map_of d p = Some (PStr ''NA'')"
  proof (intro allI impI)
    fix p assume sp: "set members = {p}"
    then have "usable coex members p = {}" by (auto simp: usable_def)
    then show "map_of d p = Some (PStr ''NA'')" using m sp by (simp add: mean_of_partners_def)
  qed
  have k1: "distinct (map fst d)" using d(2) d(3) by simp
  have k2: "set (map fst d) = set members" using d(2) d(4) by simp
  from d(1) k1 k2 m s show ?thesis by blast
qed

theorem calculate_avg_coexpression_mean_witness:
  "\<exists>d. calculate_avg_coexpression example_coex [''1'', ''2'', ''2'', ''3'', ''1'', ''4''] = Inr d \<and>
       map_of d ''1'' = Some (PFloat (Fin (3 / 2))) \<and> map_of d ''4'' = Some (PStr ''NA'')"
proof -
  let ?ms = "[''1'', ''2'', ''2'', ''3'', ''1'', ''4'']"
  have u1: "usable example_coex ?ms ''1'' = {''2'', ''3''}"
    by (auto simp: usable_def example_coex_def)
  have u4: "usable example_coex ?ms ''4'' = {}"
    by (auto simp: usable_def example_coex_def)
  have m1: "mean_of_partners example_coex ?ms ''1'' = PFloat (Fin (3 / 2))"
    unfolding mean_of_partners_def u1 by (simp add: example_coex_def)
  have m4: "mean_of_partners example_coex ?ms ''4'' = PStr ''NA''"
    unfolding mean_of_partners_def u4 by simp
  have i1: "''1'' \<in> set ?ms" and i4: "''4'' \<in> set ?ms" by simp_all
  from calculate_avg_coexpression_mean[of example_coex ?ms] obtain d where
    d: "calculate_avg_coexpression example_coex ?ms = Inr d"
       "\<forall>p\<in>set ?ms. map_of d p = Some (mean_of_partners example_coex ?ms p)"
    by blast
  from d(2) i1 m1 have r1: "map_of d ''1'' = Some (PFloat (Fin (3 / 2)))" by metis
  from d(2) i4 m4 have r4: "map_of d ''4'' = Some (PStr ''NA'')" by metis
  from d(1) r1 r4 show ?thesis by blast
qed

section \<open>The Ambiguity Resolver\<close>

lemma hd_insort_key:
  "hd (insort_key f x ys) = (if ys = [] \<or> f x \<le> f (hd ys) then x else hd ys)"
  by (cases ys) auto

lemma sort_key_not_Nil: "xs \<noteq> [] \<Longrightarrow> sort_key f xs \<noteq> []"
  by (metis set_sort set_empty)

lemma hd_sort_key_first_min:
  "xs \<noteq> [] \<Longrightarrow>
   \<exists>i<length xs. hd (sort_key f xs) = xs ! i \<and>
     (\<forall>j<length xs. f (xs ! i) \<le> f (xs ! j)) \<and> (\<forall>j<i. f (xs ! i) < f (xs ! j))"
proof (induction xs)
  case Nil
  then show ?case by simp
next
  case (Cons x xs)
  show ?case
  proof (cases "xs = []")
    case True
    then show ?thesis by simp
  next
    case False
    from Cons.IH[OF False] obtain i where
      i: "i < length xs" "hd (sort_key f xs) = xs ! i"
         "\<forall>j<length xs. f (xs ! i) \<le> f (xs ! j)" "\<forall>j<i. f (xs ! i) < f (xs ! j)"
      by blast
    have ne: "sort_key f xs \<noteq> []" by (rule sort_key_not_Nil[OF False])
    have h: "hd (sort_key f (x # xs)) = (if f x \<le> f (xs ! i) then x else xs ! i)"
      using ne i(2) by (simp add: hd_insort_key)
    show ?thesis
    proof (cases "f x \<le> f (xs ! i)")
      case True
      have "\<forall>j<length (x # xs). f ((x # xs) ! 0) \<le> f ((x # xs) ! j)"
      proof (intro allI impI)
        fix j assume "j < length (x # xs)"
        then show "f ((x # xs) ! 0) \<le> f ((x # xs) ! j)"
          using True i(3) by (cases j) (auto intro: order_trans)
      qed
      then show ?thesis using h True by (intro exI[of _ 0]) simp
    next
      case F: False
      have a: "\<forall>j<length (x # xs). f ((x # xs) ! Suc i) \<le> f ((x # xs) ! j)"
      proof (intro allI impI)
        fix j assume "j < length (x # xs)"
        then show "f ((x # xs) ! Suc i) \<le> f ((x # xs) ! j)"
          using F i(3) by (cases j) auto
      qed
      have b: "\<forall>j<Suc i. f ((x # xs) ! Suc i) < f ((x # xs) ! j)"
      proof (intro allI impI)
        fix j assume "j < Suc i"
        then show "f ((x # xs) ! Suc i) < f ((x # xs) ! j)"
          using F i(4) by (cases j) auto
      qed
      show ?thesis using h F i(1) a b by (intro exI[of _ "Suc i"]) simp
    qed
  qed
qed

lemma hd_sort_key_unique_min:
  assumes "c \<in> set xs" "\<forall>d\<in>set xs. d \<noteq> c \<longrightarrow> f c < f d"
  shows "hd (sort_key f xs) = c"
proof -
  have ne: "xs \<noteq> []" using assms(1) by auto
  from hd_sort_key_first_min[OF ne, of f] obtain i where
    i: "i < length xs" "hd (sort_key f xs) = xs ! i" "\<forall>j<length xs. f (xs ! i) \<le> f (xs ! j)"
    by blast
  obtain k where k: "k < length xs" "xs ! k = c" using assms(1) by (auto simp: in_set_conv_nth)
  have "f (xs ! i) \<le> f c" using i(3) k by auto
  moreover have "xs ! i \<in> set xs" using i(1) by simp
  ultimately have "xs ! i = c" using assms(2) by (metis not_less)
  then show ?thesis using i(2) by simp
qed

lemma possibilities_Inr:
  "possibilities cplx avg_coex decay_defs struc species subs = Inr poss \<Longrightarrow>
   length poss = length subs \<and>
   (\<forall>k<length subs. candidate_tuple cplx avg_coex decay_defs struc species (subs ! k) = Inr (poss ! k))"
proof (induction subs arbitrary: poss)
  case Nil
  then show ?case by simp
next
  case (Cons s subs)
  from Cons.prems obtain t ts where
    t: "candidate_tuple cplx avg_coex decay_defs struc species s = Inr t"
       "possibilities cplx avg_coex decay_defs struc species subs = Inr ts" "poss = t # ts"
    by (auto split: sum.splits)
  from Cons.IH[OF t(2)] have ih: "length ts = length subs"
    "\<forall>k<length subs. candidate_tuple cplx avg_coex decay_defs struc species (subs ! k) = Inr (ts ! k)"
    by simp_all
  have "\<forall>k<length (s # subs).
          candidate_tuple cplx avg_coex decay_defs struc species ((s # subs) ! k) = Inr ((t # ts) ! k)"
  proof (intro allI impI)
    fix k assume "k < length (s # subs)"
    then show "candidate_tuple cplx avg_coex decay_defs struc species ((s # subs) ! k) = Inr ((t # ts) ! k)"
      using t(1) ih(2) by (cases k) auto
  qed
  then show ?case using ih(1) t(3) by simp
qed

lemma possibilities_map:
  "\<forall>s\<in>set subs. candidate_tuple cplx avg_coex decay_defs struc species s = Inr (g s) \<Longrightarrow>
   possibilities cplx avg_coex decay_defs struc species subs = Inr (map g subs)"
  by (induction subs) simp_all

lemma possibilities_permuted:
  assumes "possibilities cplx avg_coex decay_defs struc species subs = Inr poss"
      and "mset subs' = mset subs"
  shows "\<exists>poss'. possibilities cplx avg_coex decay_defs struc species subs' = Inr poss' \<and>
           set poss' = set poss"
proof -
  let ?cand = "candidate_tuple cplx avg_coex decay_defs struc species"
  let ?g = "\<lambda>s. projr (?cand s)"
  from possibilities_Inr[OF assms(1)] have
    p: "length poss = length subs" "\<forall>k<length subs. ?cand (subs ! k) = Inr (poss ! k)"
    by simp_all
  have all: "\<forall>s\<in>set subs. ?cand s = Inr (?g s)"
    using p(2) by (auto simp: in_set_conv_nth)
  have eq: "poss = map ?g subs"
    using possibilities_map[of subs cplx avg_coex decay_defs struc species ?g, OF all] assms(1)
    by simp
  have s: "set subs' = set subs" using assms(2) by (metis set_mset_mset)
  have "possibilities cplx avg_coex decay_defs struc species subs' = Inr (map ?g subs')"
    using possibilities_map[of subs' cplx avg_coex decay_defs struc species ?g] all s by simp
  moreover have "set (map ?g subs') = set poss" using eq s by simp
  ultimately show ?thesis by blast
qed

lemma count_list_filter: "count_list t v = length (filter (\<lambda>x. x = v) t)"
  by (induction t) simp_all

lemma rank_key_less:
  "count_list c (PStr ''NA'') < count_list d (PStr ''NA'') \<Longrightarrow> rank_key c < rank_key d"
  by (simp add: rank_key_def less_prod_def)

lemma get_best_hd:
  "possibilities cplx avg_coex decay_defs struc species subs = Inr poss \<Longrightarrow> poss \<noteq> [] \<Longrightarrow>
   get_best_from_multiple_subs fstr cplx avg_coex decay_defs struc species subs =
     Inr (map (py_str fstr) (hd (sort_key rank_key poss)))"
  using sort_key_not_Nil[of poss rank_key]
  by (simp add: get_best_from_multiple_subs_def split: list.splits)

text \<open>
  Claim C2. For a slot with two or more candidate ids whose tuples can be built, there is
  one tuple per candidate id, in input order; the key of a tuple is the number of its
  \<^verbatim>\<open>'NA'\<close> components, then whether its coexpression component is \<^verbatim>\<open>'NA'\<close>; the
  resolver returns the text of the first tuple, in input order, among those of least key
  (the head of a stable sort). So a tuple with strictly fewer \<^verbatim>\<open>'NA'\<close> components than
  every other is returned whatever the order of the candidate ids.
\<close>

theorem get_best_first_of_stable_sort:
  assumes "possibilities cplx avg_coex decay_defs struc species subunits = Inr poss"
      and "2 \<le> length subunits"
  shows "length poss = length subunits \<and>
         (\<forall>k<length subunits.
            candidate_tuple cplx avg_coex decay_defs struc species (subunits ! k) = Inr (poss ! k)) \<and>
         (\<forall>t. rank_key t = (length (filter (\<lambda>v. v = PStr ''NA'') t),
                            if t ! 3 = PStr ''NA'' then 1 else 0)) \<and>
         (\<exists>i<length poss.
            get_best_from_multiple_subs fstr cplx avg_coex decay_defs struc species subunits
              = Inr (map (py_str fstr) (poss ! i)) \<and>
            (\<forall>j<length poss. rank_key (poss ! i) \<le> rank_key (poss ! j)) \<and>
            (\<forall>j<i. rank_key (poss ! i) < rank_key (poss ! j))) \<and>
         (\<forall>c\<in>set poss.
            (\<forall>d\<in>set poss. d \<noteq> c \<longrightarrow> count_list c (PStr ''NA'') < count_list d (PStr ''NA'')) \<longrightarrow>
            (\<forall>subunits'. mset subunits' = mset subunits \<longrightarrow>
               get_best_from_multiple_subs fstr cplx avg_coex decay_defs struc species subunits'
                 = Inr (map (py_str fstr) c)))"
proof -
  note p = possibilities_Inr[OF assms(1)]
  have ne: "poss \<noteq> []" using p assms(2) by auto
  have k: "\<forall>t. rank_key t = (length (filter (\<lambda>v. v = PStr ''NA'') t),
                            if t ! 3 = PStr ''NA'' then 1 else 0)"
    by (simp add: rank_key_def count_list_filter)
  have first: "\<exists>i<length poss.
            get_best_from_multiple_subs fstr cplx avg_coex decay_defs struc species subunits
              = Inr (map (py_str fstr) (poss ! i)) \<and>
            (\<forall>j<length poss. rank_key (poss ! i) \<le> rank_key (poss ! j)) \<and>
            (\<forall>j<i. rank_key (poss ! i) < rank_key (poss ! j))"
    using hd_sort_key_first_min[OF ne, of rank_key] get_best_hd[OF assms(1) ne, of fstr]
    by auto
  have uniq: "\<forall>c\<in>set poss.
            (\<forall>d\<in>set poss. d \<noteq> c \<longrightarrow> count_list c (PStr ''NA'') < count_list d (PStr ''NA'')) \<longrightarrow>
            (\<forall>subunits'. mset subunits' = mset subunits \<longrightarrow>
               get_best_from_multiple_subs fstr cplx avg_coex decay_defs struc species subunits'
                 = Inr (map (py_str fstr) c))"
  proof (intro ballI impI allI)
    fix c subunits'
    assume c: "c \<in> set poss"
      and m: "\<forall>d\<in>set poss. d \<noteq> c \<longrightarrow> count_list c (PStr ''NA'') < count_list d (PStr ''NA'')"
      and pm: "mset subunits' = mset subunits"
    from possibilities_permuted[OF assms(1) pm] obtain poss' where
      p': "possibilities cplx avg_coex decay_defs struc species subunits' = Inr poss'"
          "set poss' = set poss"
      by blast
    have ne': "poss' \<noteq> []" using p'(2) ne by auto
    have c': "c \<in> set poss'" using c p'(2) by simp
    have m': "\<forall>d\<in>set poss'. d \<noteq> c \<longrightarrow> rank_key c < rank_key d"
      using m p'(2) rank_key_less by blast
    show "get_best_from_multiple_subs fstr cplx avg_coex decay_defs struc species subunits'
            = Inr (map (py_str fstr) c)"
      using get_best_hd[OF p'(1) ne', of fstr] hd_sort_key_unique_min[OF c' m'] by simp
  qed
  from p k first uniq show ?thesis by blast
qed


lemma upt2: "[0..<2] = [0, 1]"
  by (simp add: upt_rec)

lemma example_poss:
  "possibilities example_complex example_avg example_decay ''c1'' ''human'' [''2'', ''3''] =
     Inr [[PStr ''c1'', PStr ''2'', PStr ''P2'', PFloat (Fin 2), PStr ''NA'', PStr ''human''],
          [PStr ''c1'', PStr ''3'', PStr ''P3'', PFloat (Fin 1), PStr ''ED'', PStr ''human'']]"
  by (simp add: candidate_tuple_def match_entrez_to_uniprot_def example_complex_def upt2
      py_get_def example_avg_def example_decay_def decay_get_def)

theorem get_best_first_of_stable_sort_witness:
  "get_best_from_multiple_subs example_fstr example_complex example_avg example_decay
     ''c1'' ''human'' [''2'', ''3''] = Inr [''c1'', ''3'', ''P3'', ''1.0'', ''ED'', ''human''] \<and>
   get_best_from_multiple_subs example_fstr example_complex example_avg example_decay
     ''c1'' ''human'' [''3'', ''2''] = Inr [''c1'', ''3'', ''P3'', ''1.0'', ''ED'', ''human'']"
proof -
  let ?c = "[PStr ''c1'', PStr ''3'', PStr ''P3'', PFloat (Fin 1), PStr ''ED'', PStr ''human'']"
  have l: "2 \<le> length [''2'', ''3'']" by simp
  have m1: "mset [''2'', ''3''] = mset [''2'', ''3'']" by simp
  have m2: "mset [''3'', ''2''] = mset [''2'', ''3'']" by (simp add: add_mset_commute)
  have u: "\<forall>subunits'. mset subunits' = mset [''2'', ''3''] \<longrightarrow>
             get_best_from_multiple_subs example_fstr example_complex example_avg example_decay
               ''c1'' ''human'' subunits' = Inr (map (py_str example_fstr) ?c)"
    using get_best_first_of_stable_sort[OF example_poss l, of example_fstr] by simp
  have s: "map (py_str example_fstr) ?c = [''c1'', ''3'', ''P3'', ''1.0'', ''ED'', ''human'']"
    by (simp add: example_fstr_def)
  from u m1 m2 s show ?thesis by metis
qed

section \<open>The loop of the Significance Tester\<close>

lemma def_dist_of_wf:
  "\<forall>row\<in>set cplx. length row = 2 \<Longrightarrow> def_dist_of cplx = Inr (map (\<lambda>row. row ! 1) cplx)"
  by (induction cplx) (simp_all add: py_get_def)

lemma upt3: "[0..<Suc 2] = [0, 1, 2]"
  by (simp add: upt_rec)

lemma binom_test_1_2: "binom_test 1 2 = 1"
  unfolding binom_test_def upt3 by (simp add: binom_pmf_def numeral_2_eq_2)

lemma binom_test_0_0: "binom_test 0 0 = 1"
  by (simp add: binom_test_def binom_pmf_def)

lemma read_rows_empty: "read_rows content = []"
  by (simp add: read_rows_def py_truthy_def)

lemma analyse_no_trial:
  "fs filename = Some content \<Longrightarrow>
   analyse_corum_data rand shuffle rng pyfloat fs filename = Inr (0, 0, 1)"
  by (simp add: analyse_corum_data_def read_rows_empty group_rows_def binom_test_0_0)

lemma partition_vals_all_NA:
  "\<forall>row\<in>set cplx. row \<noteq> [] \<and> row ! 0 = ''NA'' \<Longrightarrow>
   partition_vals pyfloat cplx nvals evals = Inr (nvals, evals)"
  by (induction cplx) (auto simp: py_get_def)


lemma relabel_pairs:
  assumes "\<forall>row\<in>set cplx. length row = 2"
  shows "\<exists>c rng'. relabel shuffle rng cplx = Inr (c, rng') \<and> length c \<le> length cplx \<and>
             (\<forall>row\<in>set c. row \<noteq> [] \<and> (\<exists>r\<in>set cplx. row ! 0 = r ! 0))"
proof -
  obtain shuffled rng' where s: "shuffle rng (map (\<lambda>row. row ! Suc 0) cplx) = (shuffled, rng')"
    by (cases "shuffle rng (map (\<lambda>row. row ! Suc 0) cplx)")
  let ?c = "map2 (\<lambda>row l. [row ! 0, l]) cplx shuffled"
  have r: "relabel shuffle rng cplx = Inr (?c, rng')"
    by (simp add: relabel_def def_dist_of_wf[OF assms] s)
  have e: "\<forall>row\<in>set ?c. row \<noteq> [] \<and> (\<exists>r\<in>set cplx. row ! 0 = r ! 0)"
  proof
    fix row assume "row \<in> set ?c"
    then obtain r l where "(r, l) \<in> set (zip cplx shuffled)" "row = [r ! 0, l]" by auto
    then show "row \<noteq> [] \<and> (\<exists>r\<in>set cplx. row ! 0 = r ! 0)"
      by (auto dest: set_zip_leftD)
  qed
  have "length ?c \<le> length cplx" by simp
  with r e show ?thesis by blast
qed

lemma complex_trial_skipped:
  assumes "(if rand then relabel shuffle rng cplx else Inr (cplx, rng)) = Inr (c, rng')"
      and "length c \<le> 2 \<or> (\<forall>row\<in>set c. row \<noteq> [] \<and> row ! 0 = ''NA'')"
  shows "complex_trial rand shuffle rng pyfloat cplx = Inr (None, rng')"
proof (cases "length c \<le> 2")
  case True
  then show ?thesis unfolding complex_trial_def assms(1) by simp
next
  case False
  then have "\<forall>row\<in>set c. row \<noteq> [] \<and> row ! 0 = ''NA''" using assms(2) by blast
  from partition_vals_all_NA[OF this, of pyfloat "[]" "[]"] show ?thesis
    unfolding complex_trial_def assms(1) by simp
qed

text \<open>
  Claim C5. A complex with two rows or fewer adds no trial, whatever its values and
  labels, and neither does a complex whose values are all \<^verbatim>\<open>'NA'\<close>: the loop goes on
  with the counts unchanged. In shuffle mode the rows are taken to be pairs, since the
  shuffle reads the label of every row first.
\<close>

theorem small_or_missing_complex_excluded:
  assumes "\<not> rand \<or> (\<forall>row\<in>set cplx. length row = 2)"
      and "length cplx \<le> 2 \<or> (\<forall>row\<in>set cplx. row \<noteq> [] \<and> row ! 0 = ''NA'')"
  shows "\<exists>rng'. complex_trial rand shuffle rng pyfloat cplx = Inr (None, rng') \<and>
           trials_loop rand shuffle rng pyfloat ((struc, cplx) # rest) success trials =
             trials_loop rand shuffle rng' pyfloat rest success trials"
proof -
  have "\<exists>c rng'. (if rand then relabel shuffle rng cplx else Inr (cplx, rng)) = Inr (c, rng') \<and>
            (length c \<le> 2 \<or> (\<forall>row\<in>set c. row \<noteq> [] \<and> row ! 0 = ''NA''))"
  proof (cases rand)
    case False
    then show ?thesis using assms(2) by simp
  next
    case True
    then have p: "\<forall>row\<in>set cplx. length row = 2" using assms(1) by simp
    from relabel_pairs[OF p, of shuffle rng] obtain c rng' where
      c: "relabel shuffle rng cplx = Inr (c, rng')" "length c \<le> length cplx"
         "\<forall>row\<in>set c. row \<noteq> [] \<and> (\<exists>r\<in>set cplx. row ! 0 = r ! 0)"
      by blast
    have "length c \<le> 2 \<or> (\<forall>row\<in>set c. row \<noteq> [] \<and> row ! 0 = ''NA'')"
    proof (cases "length cplx \<le> 2")
      case True
      then show ?thesis using c(2) by simp
    next
      case False
      then have "\<forall>row\<in>set cplx. row \<noteq> [] \<and> row ! 0 = ''NA''" using assms(2) by blast
      then show ?thesis using c(3) by metis
    qed
    then show ?thesis using True c(1) by simp
  qed
  then obtain c rng' where
    c: "(if rand then relabel shuffle rng cplx else Inr (cplx, rng)) = Inr (c, rng')"
       "length c \<le> 2 \<or> (\<forall>row\<in>set c. row \<noteq> [] \<and> row ! 0 = ''NA'')"
    by blast
  have t: "complex_trial rand shuffle rng pyfloat cplx = Inr (None, rng')"
    by (rule complex_trial_skipped[OF c])
  show ?thesis using t by simp
qed

theorem small_or_missing_complex_excluded_witness:
  "(\<exists>r. complex_trial False example_shuffle 0 example_float [[''3'', ''NED''], [''1'', ''ED'']]
          = Inr (None, r)) \<and>
   (\<exists>r. complex_trial True example_shuffle 0 example_float
          [[''NA'', ''NED''], [''NA'', ''ED''], [''NA'', ''ED'']] = Inr (None, r))"
proof -
  let ?small = "[[''3'', ''NED''], [''1'', ''ED'']]"
  let ?missing = "[[''NA'', ''NED''], [''NA'', ''ED''], [''NA'', ''ED'']]"
  have a1: "\<not> False \<or> (\<forall>row\<in>set ?small. length row = 2)" by simp
  have a2: "length ?small \<le> 2 \<or> (\<forall>row\<in>set ?small. row \<noteq> [] \<and> row ! 0 = ''NA'')" by simp
  have b1: "\<not> True \<or> (\<forall>row\<in>set ?missing. length row = 2)" by simp
  have b2: "length ?missing \<le> 2 \<or> (\<forall>row\<in>set ?missing. row \<noteq> [] \<and> row ! 0 = ''NA'')"
    by simp
  have a: "\<exists>r. complex_trial False example_shuffle 0 example_float ?small = Inr (None, r)"
    using small_or_missing_complex_excluded
      [OF a1 a2, where shuffle = example_shuffle and rng = "0::nat" and pyfloat = example_float
         and struc = "''c1''" and rest = "[]" and success = 0 and trials = 0]
    by blast
  have b: "\<exists>r. complex_trial True example_shuffle 0 example_float ?missing = Inr (None, r)"
    using small_or_missing_complex_excluded
      [OF b1 b2, where shuffle = example_shuffle and rng = "0::nat" and pyfloat = example_float
         and struc = "''c1''" and rest = "[]" and success = 0 and trials = 0]
    by blast
  from a b show ?thesis by blast
qed

text \<open>
  The loop alone compares the two partitions as lists, in row order: handed the rows
  (1, NED), (2, NED), (2, ED), (1, ED) it would count a trial. The tester never hands
  the loop such a table, as the next theorem shows.
\<close>

lemma swapped_partitions_in_loop:
  "complex_trial False example_shuffle 0 example_float example_swapped = Inr (Some False, 0)"
proof -
  have p: "partition_vals example_float example_swapped [] [] = Inr ([1, 2], [2, 1])"
    by (simp add: example_swapped_def example_float_def py_get_def)
  show ?thesis
    unfolding complex_trial_def using p by (simp add: example_swapped_def np_mean_def)
qed



lemma scenario_groups:
  "group_rows (all_rows scenario_table) =
     Inr [(''comp'', [[''uniprot'', ''avg.coex'']]),
          (''c1'', [[''1'', ''NED''], [''2'', ''ED''], [''3'', ''ED'']]),
          (''c2'', [[''3'', ''NED''], [''1'', ''ED''], [''2'', ''ED'']])]"
  by code_simp

text \<open>
  Claim C3 at the table of the specification's third scenario: the tester reports no
  success and no trial, where the claim gives one success in two trials. The loop itself
  counts as the claim says: on the rows of this table, grouped as the specification
  describes, it returns one success in two trials, and the test of that is 1. The rows
  never reach the loop, since the comprehension that reads them keeps none.
\<close>

theorem scenario_reports_no_trial:
  "analyse_corum_data False example_shuffle 0 example_float
     [''table.tsv'' \<mapsto> scenario_table] ''table.tsv'' = Inr (0, 0, 1) \<and>
   (\<exists>g. group_rows (all_rows scenario_table) = Inr g \<and>
        trials_loop False example_shuffle 0 example_float g 0 0 = Inr (1, 2)) \<and>
   binom_test 1 2 = 1"
proof -
  have a: "analyse_corum_data False example_shuffle 0 example_float
     [''table.tsv'' \<mapsto> scenario_table] ''table.tsv'' = Inr (0, 0, 1)"
    by (rule analyse_no_trial) simp
  have l: "trials_loop False example_shuffle 0 example_float
             [(''comp'', [[''uniprot'', ''avg.coex'']]),
              (''c1'', [[''1'', ''NED''], [''2'', ''ED''], [''3'', ''ED'']]),
              (''c2'', [[''3'', ''NED''], [''1'', ''ED''], [''2'', ''ED'']])] 0 0 = Inr (1, 2)"
    by (simp add: complex_trial_def example_float_def py_get_def np_mean_def)
  from a l scenario_groups binom_test_1_2 show ?thesis by simp
qed

text \<open>
  Claim C10. Whatever the file holds, the comprehension keeps none of its lines: the
  grouped table is empty and the tester reports no success and no trial.
\<close>

theorem analyse_reads_no_rows:
  assumes "fs filename = Some content"
  shows "read_rows content = [] \<and> group_rows (read_rows content) = Inr [] \<and>
         (\<exists>p. analyse_corum_data rand shuffle rng pyfloat fs filename = Inr (0, 0, p))"
  using assms by (simp add: read_rows_empty group_rows_def analyse_corum_data_def)

theorem analyse_reads_no_rows_witness:
  "read_rows example_table = [] \<and>
   (\<exists>p. analyse_corum_data False example_shuffle 0 example_float
          [''table.tsv'' \<mapsto> example_table] ''table.tsv'' = Inr (0, 0, p))"
proof -
  have h: "[''table.tsv'' \<mapsto> example_table] ''table.tsv'' = Some example_table" by simp
  from analyse_reads_no_rows
    [where fs = "[''table.tsv'' \<mapsto> example_table]" and filename = "''table.tsv''"
       and content = example_table and rand = False and shuffle = example_shuffle
       and rng = "0::nat" and pyfloat = example_float, OF h]
  show ?thesis by simp
qed

section \<open>The rows of the Complex Table Builder\<close>

lemma list_index_less: "x \<in> set xs \<Longrightarrow> list_index xs x < length xs \<and> xs ! list_index xs x = x"
  by (induction xs) auto

lemma match_slots_find:
  "match_slots c e ixs =
     (case List.find (\<lambda>i. e \<in> set (entrez c ! i)) ixs of
        None \<Rightarrow> Inr PNone
      | Some i \<Rightarrow>
          if i < length (uniprot c) \<and> list_index (entrez c ! i) e < length (uniprot c ! i)
          then Inr (PStr (uniprot c ! i ! list_index (entrez c ! i) e))
          else Inl IndexError)"
  by (induction ixs) (auto simp: py_get_def)

lemma first_slot_member:
  assumes "e \<in> set (concat (entrez c))"
  shows "\<exists>i. first_slot c e = Some i \<and> i < length (entrez c) \<and> e \<in> set (entrez c ! i)"
proof -
  from assms obtain slot where "slot \<in> set (entrez c)" "e \<in> set slot" by auto
  then obtain k where k: "k < length (entrez c)" "e \<in> set (entrez c ! k)"
    by (metis in_set_conv_nth)
  then have "List.find (\<lambda>i. e \<in> set (entrez c ! i)) [0..<length (entrez c)] \<noteq> None"
    by (auto simp: find_None_iff)
  then obtain i where i: "first_slot c e = Some i" by (auto simp: first_slot_def)
  then have "i \<in> set [0..<length (entrez c)] \<and> e \<in> set (entrez c ! i)"
    unfolding first_slot_def by (auto simp: find_Some_iff)
  with i show ?thesis by auto
qed

lemma match_member:
  assumes "e \<in> set (concat (entrez c))"
  shows "match_entrez_to_uniprot c e =
           (if resolvable c e then Inr (PStr (aligned_id c e)) else Inl IndexError)"
proof -
  from first_slot_member[OF assms] obtain i where i: "first_slot c e = Some i" by blast
  then have f: "List.find (\<lambda>i. e \<in> set (entrez c ! i)) [0..<length (entrez c)] = Some i"
    by (simp add: first_slot_def)
  show ?thesis
    unfolding match_entrez_to_uniprot_def match_slots_find f
    by (simp add: resolvable_def aligned_id_def i)
qed

lemma resolvable_aligned:
  assumes "e \<in> set (concat (entrez c))" "resolvable c e"
  shows "\<exists>i j. i < length (entrez c) \<and> j < length (entrez c ! i) \<and> entrez c ! i ! j = e \<and>
               i < length (uniprot c) \<and> j < length (uniprot c ! i) \<and>
               uniprot c ! i ! j = aligned_id c e"
proof -
  from first_slot_member[OF assms(1)] obtain i where
    i: "first_slot c e = Some i" "i < length (entrez c)" "e \<in> set (entrez c ! i)" by blast
  let ?j = "list_index (entrez c ! i) e"
  have j: "?j < length (entrez c ! i)" "entrez c ! i ! ?j = e"
    using list_index_less[OF i(3)] by simp_all
  have u: "i < length (uniprot c)" "?j < length (uniprot c ! i)"
    using assms(2) i(1) by (simp_all add: resolvable_def)
  have "uniprot c ! i ! ?j = aligned_id c e" by (simp add: aligned_id_def i(1))
  with i(2) j u show ?thesis by blast
qed

lemma avg_coex_lookup:
  "\<exists>d. calculate_avg_coexpression coex (concat (entrez c)) = Inr d \<and> avg_ok coex c d"
proof -
  from calculate_avg_coexpression_fin[of coex "concat (entrez c)"] obtain d ks where
    d: "calculate_avg_coexpression coex (concat (entrez c)) = Inr d" "distinct ks"
       "set ks = set (concat (entrez c))"
       "\<forall>p\<in>set (concat (entrez c)). map_of d p = Some (fin coex ks p)"
    by blast
  have "avg_ok coex c d"
    unfolding avg_ok_def using d(4) fin_mean_of_partners[OF d(2) d(3)] by simp
  with d(1) show ?thesis by blast
qed

lemma str_tuple_of:
  "map (py_str fstr) (tuple_of coex decay_defs species struc c e) =
     row_of fstr coex decay_defs species struc c e"
  by (simp add: tuple_of_def row_of_def decay_get_def split: option.splits)

lemma candidate_tuple_member:
  assumes "avg_ok coex c avg" "e \<in> set (concat (entrez c))"
  shows "candidate_tuple c avg decay_defs struc species e =
           (if resolvable c e then Inr (tuple_of coex decay_defs species struc c e)
            else Inl IndexError)"
proof -
  have m: "map_of avg e = Some (mean_of_partners coex (concat (entrez c)) e)"
    using assms unfolding avg_ok_def by blast
  show ?thesis
    by (simp add: candidate_tuple_def match_member[OF assms(2)] m tuple_of_def)
qed

lemma possibilities_fail:
  "\<forall>s\<in>set subs. candidate_tuple c avg dd struc species s = Inl IndexError \<or>
                  (\<exists>t. candidate_tuple c avg dd struc species s = Inr t) \<Longrightarrow>
   \<exists>s\<in>set subs. candidate_tuple c avg dd struc species s = Inl IndexError \<Longrightarrow>
   possibilities c avg dd struc species subs = Inl IndexError"
proof (induction subs)
  case Nil
  then show ?case by simp
next
  case (Cons s subs)
  show ?case
  proof (cases "candidate_tuple c avg dd struc species s")
    case (Inl e)
    then show ?thesis using Cons.prems(1) by auto
  next
    case (Inr t)
    then have "\<exists>s\<in>set subs. candidate_tuple c avg dd struc species s = Inl IndexError"
      using Cons.prems(2) by auto
    moreover have "\<forall>s\<in>set subs. candidate_tuple c avg dd struc species s = Inl IndexError \<or>
                  (\<exists>t. candidate_tuple c avg dd struc species s = Inr t)"
      using Cons.prems(1) by simp
    ultimately have "possibilities c avg dd struc species subs = Inl IndexError"
      by (rule Cons.IH[rotated])
    then show ?thesis using Inr by simp
  qed
qed

lemma slot_info_member:
  assumes avg: "avg_ok coex c avg" and sub: "set slot \<subseteq> set (concat (entrez c))"
  shows "(\<forall>info. slot_info fstr c avg dd struc species slot = Inr info \<longrightarrow>
            (\<exists>e\<in>set slot. resolvable c e \<and> info = row_of fstr coex dd species struc c e)) \<and>
         (\<forall>er. slot_info fstr c avg dd struc species slot = Inl er \<longrightarrow> er = IndexError) \<and>
         ((\<exists>e\<in>set slot. \<not> resolvable c e) \<longrightarrow>
            slot_info fstr c avg dd struc species slot = Inl IndexError)"
proof -
  let ?cand = "candidate_tuple c avg dd struc species"
  let ?tup = "tuple_of coex dd species struc c"
  have cand: "\<forall>e\<in>set slot. ?cand e = (if resolvable c e then Inr (?tup e) else Inl IndexError)"
    using candidate_tuple_member[OF avg] sub by blast
  show ?thesis
  proof (cases "length slot = 1")
    case True
    then obtain e where e: "slot = [e]" by (cases slot) auto
    show ?thesis
      using cand by (simp add: e slot_info_def str_tuple_of)
  next
    case False
    then have si: "slot_info fstr c avg dd struc species slot =
                   get_best_from_multiple_subs fstr c avg dd struc species slot"
      by (simp add: slot_info_def)
    show ?thesis
    proof (cases "\<exists>e\<in>set slot. \<not> resolvable c e")
      case True
      have "possibilities c avg dd struc species slot = Inl IndexError"
      proof (rule possibilities_fail)
        show "\<forall>s\<in>set slot. ?cand s = Inl IndexError \<or> (\<exists>t. ?cand s = Inr t)"
          using cand by auto
        show "\<exists>s\<in>set slot. ?cand s = Inl IndexError"
          using cand True by auto
      qed
      then show ?thesis
        using True by (simp add: si get_best_from_multiple_subs_def)
    next
      case all: False
      then have "\<forall>s\<in>set slot. ?cand s = Inr (?tup s)" using cand by auto
      from possibilities_map[OF this]
      have p: "possibilities c avg dd struc species slot = Inr (map ?tup slot)" .
      show ?thesis
      proof (cases "slot = []")
        case True
        have g0: "slot_info fstr c avg dd struc species slot = Inl IndexError"
          unfolding si by (simp add: True get_best_from_multiple_subs_def)
        show ?thesis unfolding g0 using all by simp
      next
        case ne: False
        then have ne': "map ?tup slot \<noteq> []" by simp
        have g: "get_best_from_multiple_subs fstr c avg dd struc species slot =
                 Inr (map (py_str fstr) (hd (sort_key rank_key (map ?tup slot))))"
          by (rule get_best_hd[OF p ne'])
        have "hd (sort_key rank_key (map ?tup slot)) \<in> set (map ?tup slot)"
          using hd_in_set[OF sort_key_not_Nil[OF ne', of rank_key]] by (simp only: set_sort)
        then obtain e where e: "e \<in> set slot" "hd (sort_key rank_key (map ?tup slot)) = ?tup e"
          by auto
        have "resolvable c e" using all e(1) by blast
        then show ?thesis
          using all e by (auto simp: si g str_tuple_of)
      qed
    qed
  qed
qed

lemma slots_loop_member:
  assumes avg: "avg_ok coex c avg"
  shows "\<forall>slot\<in>set slots. set slot \<subseteq> set (concat (entrez c)) \<Longrightarrow>
         (\<forall>info\<in>set (snd (slots_loop fstr c avg dd struc species slots)).
            \<exists>e\<in>set (concat slots). resolvable c e \<and> info = row_of fstr coex dd species struc c e) \<and>
         (fst (slots_loop fstr c avg dd struc species slots) = None \<or>
          fst (slots_loop fstr c avg dd struc species slots) = Some IndexError) \<and>
         ((\<exists>slot\<in>set slots. \<exists>e\<in>set slot. \<not> resolvable c e) \<longrightarrow>
            fst (slots_loop fstr c avg dd struc species slots) = Some IndexError) \<and>
         (fst (slots_loop fstr c avg dd struc species slots) = None \<longrightarrow>
            length (snd (slots_loop fstr c avg dd struc species slots)) = length slots)"
proof (induction slots)
  case Nil
  then show ?case by simp
next
  case (Cons slot slots)
  have sub: "set slot \<subseteq> set (concat (entrez c))" using Cons.prems by simp
  have rest: "\<forall>slot\<in>set slots. set slot \<subseteq> set (concat (entrez c))" using Cons.prems by simp
  note si = slot_info_member[OF avg sub, of fstr dd struc species]
  note ih = Cons.IH[OF rest]
  show ?case
  proof (cases "slot_info fstr c avg dd struc species slot")
    case (Inl er)
    then have "er = IndexError" using si by blast
    then show ?thesis using Inl by simp
  next
    case (Inr info)
    then obtain e where e: "e \<in> set slot" "resolvable c e"
        "info = row_of fstr coex dd species struc c e"
      using si by blast
    have nobad: "\<not> (\<exists>e\<in>set slot. \<not> resolvable c e)" using si Inr by auto
    obtain err infos where r: "slots_loop fstr c avg dd struc species slots = (err, infos)"
      by (cases "slots_loop fstr c avg dd struc species slots")
    have ih1: "\<forall>i\<in>set infos. \<exists>e\<in>set (concat slots). resolvable c e \<and>
                 i = row_of fstr coex dd species struc c e"
      and ih2: "err = None \<or> err = Some IndexError"
      and ih3: "(\<exists>slot\<in>set slots. \<exists>e\<in>set slot. \<not> resolvable c e) \<longrightarrow> err = Some IndexError"
      and ih4: "err = None \<longrightarrow> length infos = length slots"
      using ih unfolding r fst_conv snd_conv by blast+
    have res: "slots_loop fstr c avg dd struc species (slot # slots) = (err, info # infos)"
      by (simp add: Inr r)
    have g1: "\<forall>i\<in>set (info # infos). \<exists>e\<in>set (concat (slot # slots)). resolvable c e \<and>
                 i = row_of fstr coex dd species struc c e"
    proof
      fix i assume "i \<in> set (info # infos)"
      then consider "i = info" | "i \<in> set infos" by auto
      then show "\<exists>e\<in>set (concat (slot # slots)). resolvable c e \<and>
                 i = row_of fstr coex dd species struc c e"
      proof cases
        case 1
        then show ?thesis using e by auto
      next
        case 2
        then obtain e' where "e' \<in> set (concat slots)" "resolvable c e'"
            "i = row_of fstr coex dd species struc c e'"
          using ih1 by blast
        then show ?thesis by auto
      qed
    qed
    have g3: "(\<exists>s\<in>set (slot # slots). \<exists>e\<in>set s. \<not> resolvable c e) \<longrightarrow> err = Some IndexError"
      using ih3 nobad by auto
    have g4: "err = None \<longrightarrow> length (info # infos) = length (slot # slots)"
      using ih4 by simp
    show ?thesis
      unfolding res fst_conv snd_conv using g1 ih2 g3 g4 by blast
  qed
qed

lemma complex_infos_member:
  "(\<forall>info\<in>set (snd (complex_infos fstr coex dd species struc c)).
      \<exists>e\<in>set (concat (entrez c)). resolvable c e \<and> info = row_of fstr coex dd species struc c e) \<and>
   (fst (complex_infos fstr coex dd species struc c) = None \<or>
    fst (complex_infos fstr coex dd species struc c) = Some IndexError) \<and>
   ((\<exists>slot\<in>set (entrez c). \<exists>e\<in>set slot. \<not> resolvable c e) \<longrightarrow>
      fst (complex_infos fstr coex dd species struc c) = Some IndexError) \<and>
   (fst (complex_infos fstr coex dd species struc c) = None \<longrightarrow>
      length (snd (complex_infos fstr coex dd species struc c)) = length (entrez c))"
proof -
  from avg_coex_lookup[of coex c] obtain avg where
    a: "calculate_avg_coexpression coex (concat (entrez c)) = Inr avg" "avg_ok coex c avg"
    by blast
  have ci: "complex_infos fstr coex dd species struc c =
            slots_loop fstr c avg dd struc species (entrez c)"
    by (simp add: complex_infos_def a(1))
  have s: "\<forall>slot\<in>set (entrez c). set slot \<subseteq> set (concat (entrez c))" by auto
  show ?thesis
    unfolding ci using slots_loop_member[OF a(2) s, of fstr dd struc species] by simp
qed

lemma strucs_loop_rows:
  "\<forall>info\<in>set (snd (strucs_loop fstr coex dd species core ss)).
     \<exists>struc c. lookup core struc = Some c \<and>
       info \<in> set (snd (complex_infos fstr coex dd species struc c))"
proof (induction ss)
  case Nil
  then show ?case by simp
next
  case (Cons struc ss)
  show ?case
  proof (cases "lookup core struc")
    case None
    then show ?thesis by simp
  next
    case (Some c)
    obtain err infos where ci: "complex_infos fstr coex dd species struc c = (err, infos)"
      by (cases "complex_infos fstr coex dd species struc c")
    obtain err' infos' where sl: "strucs_loop fstr coex dd species core ss = (err', infos')"
      by (cases "strucs_loop fstr coex dd species core ss")
    have here: "\<forall>info\<in>set infos. \<exists>struc c. lookup core struc = Some c \<and>
       info \<in> set (snd (complex_infos fstr coex dd species struc c))"
      using Some ci by (metis snd_conv)
    have there: "\<forall>info\<in>set infos'. \<exists>struc c. lookup core struc = Some c \<and>
       info \<in> set (snd (complex_infos fstr coex dd species struc c))"
      using Cons.IH sl by simp
    show ?thesis
    proof (cases err)
      case None
      then have "snd (strucs_loop fstr coex dd species core (struc # ss)) = infos @ infos'"
        by (simp add: Some ci sl)
      then show ?thesis using here there by auto
    next
      case (Some e)
      then have "snd (strucs_loop fstr coex dd species core (struc # ss)) = infos"
        using \<open>lookup core struc = Some c\<close> by (simp add: ci)
      then show ?thesis using here by simp
    qed
  qed
qed

lemma row_of_field:
  "length (row_of fstr coex dd species struc c e) = 6 \<and>
   (row_of fstr coex dd species struc c e ! 3 = ''NA'' \<or>
    (\<exists>r. row_of fstr coex dd species struc c e ! 3 = fstr (Fin r)))"
  by (auto simp: row_of_def mean_of_partners_def)

lemma slot_info_good:
  assumes avg: "avg_ok coex c avg" and sub: "set slot \<subseteq> set (concat (entrez c))"
      and ne: "slot \<noteq> []" and res: "\<forall>e\<in>set slot. resolvable c e"
  shows "\<exists>info. slot_info fstr c avg dd struc species slot = Inr info"
proof -
  let ?cand = "candidate_tuple c avg dd struc species"
  let ?tup = "tuple_of coex dd species struc c"
  have cand: "\<forall>e\<in>set slot. ?cand e = Inr (?tup e)"
  proof
    fix e assume e: "e \<in> set slot"
    then have "e \<in> set (concat (entrez c))" using sub by blast
    from candidate_tuple_member[OF avg this, of dd struc species]
    show "?cand e = Inr (?tup e)" using res e by simp
  qed
  show ?thesis
  proof (cases "length slot = 1")
    case True
    then obtain e where e: "slot = [e]" by (cases slot) auto
    show ?thesis using cand by (simp add: e slot_info_def)
  next
    case False
    from possibilities_map[OF cand]
    have p: "possibilities c avg dd struc species slot = Inr (map ?tup slot)" .
    have ne': "map ?tup slot \<noteq> []" using ne by simp
    show ?thesis
      using False get_best_hd[OF p ne', of fstr] by (simp add: slot_info_def)
  qed
qed

lemma slot_info_char:
  assumes avg: "avg_ok coex c avg" and sub: "set slot \<subseteq> set (concat (entrez c))"
  shows "(failing_slot c slot \<longrightarrow> slot_info fstr c avg dd struc species slot = Inl IndexError) \<and>
         (\<not> failing_slot c slot \<longrightarrow>
            (\<exists>e\<in>set slot. resolvable c e \<and>
               slot_info fstr c avg dd struc species slot
                 = Inr (row_of fstr coex dd species struc c e)))"
proof -
  note m = slot_info_member[OF avg sub, of fstr dd struc species]
  have e: "slot = [] \<Longrightarrow> slot_info fstr c avg dd struc species slot = Inl IndexError"
    by (simp add: slot_info_def get_best_from_multiple_subs_def)
  have f: "failing_slot c slot \<longrightarrow> slot_info fstr c avg dd struc species slot = Inl IndexError"
    using m e by (auto simp: failing_slot_def)
  have g: "\<not> failing_slot c slot \<longrightarrow>
            (\<exists>e\<in>set slot. resolvable c e \<and>
               slot_info fstr c avg dd struc species slot
                 = Inr (row_of fstr coex dd species struc c e))"
  proof
    assume "\<not> failing_slot c slot"
    then have ne: "slot \<noteq> []" and res: "\<forall>e\<in>set slot. resolvable c e"
      by (auto simp: failing_slot_def)
    from slot_info_good[OF avg sub ne res, of fstr dd struc species] obtain info where
      i: "slot_info fstr c avg dd struc species slot = Inr info" by blast
    with m obtain e where "e \<in> set slot" "resolvable c e"
        "info = row_of fstr coex dd species struc c e" by blast
    with i show "\<exists>e\<in>set slot. resolvable c e \<and>
               slot_info fstr c avg dd struc species slot
                 = Inr (row_of fstr coex dd species struc c e)" by blast
  qed
  from f g show ?thesis by blast
qed

lemma slots_loop_char:
  assumes avg: "avg_ok coex c avg"
  shows "\<forall>slot\<in>set slots. set slot \<subseteq> set (concat (entrez c)) \<Longrightarrow>
         fst (slots_loop fstr c avg dd struc species slots) =
           (if \<exists>slot\<in>set slots. failing_slot c slot then Some IndexError else None) \<and>
         list_all2 (\<lambda>slot info. \<exists>e\<in>set slot. resolvable c e \<and>
                      info = row_of fstr coex dd species struc c e)
           (takeWhile (\<lambda>slot. \<not> failing_slot c slot) slots)
           (snd (slots_loop fstr c avg dd struc species slots))"
proof (induction slots)
  case Nil
  then show ?case by simp
next
  case (Cons slot slots)
  have sub: "set slot \<subseteq> set (concat (entrez c))" using Cons.prems by simp
  have rest: "\<forall>slot\<in>set slots. set slot \<subseteq> set (concat (entrez c))" using Cons.prems by simp
  note ch = slot_info_char[OF avg sub, of fstr dd struc species]
  note ih = Cons.IH[OF rest]
  show ?case
  proof (cases "failing_slot c slot")
    case True
    then have "slot_info fstr c avg dd struc species slot = Inl IndexError" using ch by blast
    then show ?thesis using True by simp
  next
    case False
    then obtain e where e: "e \<in> set slot" "resolvable c e"
        "slot_info fstr c avg dd struc species slot = Inr (row_of fstr coex dd species struc c e)"
      using ch by blast
    obtain err infos where r: "slots_loop fstr c avg dd struc species slots = (err, infos)"
      by (cases "slots_loop fstr c avg dd struc species slots")
    have res: "slots_loop fstr c avg dd struc species (slot # slots) =
                 (err, row_of fstr coex dd species struc c e # infos)"
      by (simp add: e(3) r)
    have h: "\<exists>ea\<in>set slot. resolvable c ea \<and>
               row_of fstr coex dd species struc c e = row_of fstr coex dd species struc c ea"
      using e(1) e(2) by blast
    show ?thesis
      unfolding res using ih False h by (simp add: r)
  qed
qed

lemma complex_infos_char:
  "fst (complex_infos fstr coex dd species struc c) =
     (if \<exists>slot\<in>set (entrez c). failing_slot c slot then Some IndexError else None) \<and>
   list_all2 (\<lambda>slot info. \<exists>e\<in>set slot. resolvable c e \<and>
                info = row_of fstr coex dd species struc c e)
     (takeWhile (\<lambda>slot. \<not> failing_slot c slot) (entrez c))
     (snd (complex_infos fstr coex dd species struc c))"
proof -
  from avg_coex_lookup[of coex c] obtain avg where
    a: "calculate_avg_coexpression coex (concat (entrez c)) = Inr avg" "avg_ok coex c avg"
    by blast
  have ci: "complex_infos fstr coex dd species struc c =
            slots_loop fstr c avg dd struc species (entrez c)"
    by (simp add: complex_infos_def a(1))
  have s: "\<forall>slot\<in>set (entrez c). set slot \<subseteq> set (concat (entrez c))" by auto
  show ?thesis
    unfolding ci using slots_loop_char[OF a(2) s, of fstr dd struc species] by simp
qed

text \<open>
  The helper's own answer for an id that no slot holds is \<^verbatim>\<open>None\<close>, not an error; the
  table builder only ever asks for ids of the complex.
\<close>

lemma match_not_found:
  "\<forall>i<length (entrez c). e \<notin> set (entrez c ! i) \<Longrightarrow> match_entrez_to_uniprot c e = Inr PNone"
proof -
  assume "\<forall>i<length (entrez c). e \<notin> set (entrez c ! i)"
  then have "List.find (\<lambda>i. e \<in> set (entrez c ! i)) [0..<length (entrez c)] = None"
    by (simp add: find_None_iff)
  then show ?thesis by (simp add: match_entrez_to_uniprot_def match_slots_find)
qed

lemma upt1: "[0..<Suc 0] = [0]"
  by simp

text \<open>
  Claim C7, as the code has it. The table builder writes one row for each slot up to the
  first slot that is empty or holds an id that cannot be resolved (the uniprot structure
  lacks the position aligned with it); there it stops the complex with Python's
  \<^verbatim>\<open>IndexError\<close>, the exception of the failed list index, and writes no row for that
  slot. When no slot is of that kind it writes a row for every slot and raises nothing.
  Every row carries, for an id of its slot, the uniprot id at an aligned position, never
  a placeholder; its coexpression field is the text of the mean of the partners,
  \<^verbatim>\<open>'NA'\<close> when the score source has none, and its classification field is the label
  of the uniprot id, \<^verbatim>\<open>'NA'\<close> when the classification has none.
\<close>

theorem unresolved_identifier_raises_index_error:
  "fst (complex_infos fstr coex decay_defs species struc cplx) =
     (if \<exists>slot\<in>set (entrez cplx). failing_slot cplx slot
      then Some IndexError else None) \<and>
   list_all2
     (\<lambda>slot info.
        \<exists>e\<in>set slot. \<exists>i j.
          i < length (entrez cplx) \<and> j < length (entrez cplx ! i) \<and>
          entrez cplx ! i ! j = e \<and> i < length (uniprot cplx) \<and> j < length (uniprot cplx ! i) \<and>
          info = [struc, e, uniprot cplx ! i ! j,
                  py_str fstr (mean_of_partners coex (concat (entrez cplx)) e),
                  (case decay_defs (uniprot cplx ! i ! j) of None \<Rightarrow> ''NA'' | Some l \<Rightarrow> l),
                  species])
     (takeWhile (\<lambda>slot. \<not> failing_slot cplx slot) (entrez cplx))
     (snd (complex_infos fstr coex decay_defs species struc cplx))"
proof -
  note ch = complex_infos_char[of fstr coex decay_defs species struc cplx]
  have 1: "fst (complex_infos fstr coex decay_defs species struc cplx) =
     (if \<exists>slot\<in>set (entrez cplx). failing_slot cplx slot
      then Some IndexError else None)"
    using ch by simp
  have imp: "\<exists>e\<in>set slot. \<exists>i j.
          i < length (entrez cplx) \<and> j < length (entrez cplx ! i) \<and>
          entrez cplx ! i ! j = e \<and> i < length (uniprot cplx) \<and> j < length (uniprot cplx ! i) \<and>
          info = [struc, e, uniprot cplx ! i ! j,
                  py_str fstr (mean_of_partners coex (concat (entrez cplx)) e),
                  (case decay_defs (uniprot cplx ! i ! j) of None \<Rightarrow> ''NA'' | Some l \<Rightarrow> l),
                  species]"
    if sl: "slot \<in> set (takeWhile (\<lambda>slot. \<not> failing_slot cplx slot) (entrez cplx))"
      and r: "\<exists>e\<in>set slot. resolvable cplx e \<and>
                info = row_of fstr coex decay_defs species struc cplx e"
    for slot info
  proof -
    from r obtain e where e: "e \<in> set slot" "resolvable cplx e"
        "info = row_of fstr coex decay_defs species struc cplx e" by blast
    have "slot \<in> set (entrez cplx)" using sl by (rule set_takeWhileD[THEN conjunct1])
    then have m: "e \<in> set (concat (entrez cplx))" using e(1) by auto
    from resolvable_aligned[OF m e(2)] obtain i j where
      "i < length (entrez cplx)" "j < length (entrez cplx ! i)" "entrez cplx ! i ! j = e"
      "i < length (uniprot cplx)" "j < length (uniprot cplx ! i)"
      "uniprot cplx ! i ! j = aligned_id cplx e"
      by blast
    then show ?thesis using e(1) e(3) unfolding row_of_def by metis
  qed
  have 2: "list_all2
     (\<lambda>slot info.
        \<exists>e\<in>set slot. \<exists>i j.
          i < length (entrez cplx) \<and> j < length (entrez cplx ! i) \<and>
          entrez cplx ! i ! j = e \<and> i < length (uniprot cplx) \<and> j < length (uniprot cplx ! i) \<and>
          info = [struc, e, uniprot cplx ! i ! j,
                  py_str fstr (mean_of_partners coex (concat (entrez cplx)) e),
                  (case decay_defs (uniprot cplx ! i ! j) of None \<Rightarrow> ''NA'' | Some l \<Rightarrow> l),
                  species])
     (takeWhile (\<lambda>slot. \<not> failing_slot cplx slot) (entrez cplx))
     (snd (complex_infos fstr coex decay_defs species struc cplx))"
    by (rule list.rel_mono_strong[OF ch[THEN conjunct2]]) (rule imp)
  from 1 2 show ?thesis by blast
qed

theorem unresolved_identifier_raises_index_error_witness:
  "complex_infos example_fstr example_coex example_decay ''human'' ''c9'' lone_complex
     = (None, [[''c9'', ''4'', ''P4'', ''NA'', ''NA'', ''human'']]) \<and>
   fst (complex_infos example_fstr example_coex example_decay ''human'' ''c1'' broken_complex)
     = Some IndexError \<and>
   length (snd (complex_infos example_fstr example_coex example_decay ''human'' ''c1''
                  broken_complex)) = 1"
proof -
  have r4: "resolvable lone_complex ''4''"
    by (simp add: resolvable_def first_slot_def lone_complex_def)
  have l: "\<not> failing_slot lone_complex [''4'']"
    using r4 by (simp add: failing_slot_def)
  have r1: "resolvable broken_complex ''1''"
    by (simp add: resolvable_def first_slot_def broken_complex_def upt2)
  have f3: "first_slot broken_complex ''3'' = Some 1"
    by (simp add: first_slot_def broken_complex_def upt2)
  have r3: "\<not> resolvable broken_complex ''3''"
    by (simp add: resolvable_def f3) (simp add: broken_complex_def)
  have b1: "\<not> failing_slot broken_complex [''1'']"
    using r1 by (simp add: failing_slot_def)
  have b2: "failing_slot broken_complex [''2'', ''3'']"
    using r3 by (simp add: failing_slot_def)
  have el: "entrez lone_complex = [[''4'']]" by (simp add: lone_complex_def)
  have eb: "entrez broken_complex = [[''1''], [''2'', ''3'']]" by (simp add: broken_complex_def)
  note tl = unresolved_identifier_raises_index_error
    [of example_fstr example_coex example_decay "''human''" "''c9''" lone_complex]
  note tb = unresolved_identifier_raises_index_error
    [of example_fstr example_coex example_decay "''human''" "''c1''" broken_complex]
  have m: "mean_of_partners example_coex [''4''] ''4'' = PStr ''NA''"
    by (simp add: mean_of_partners_def usable_def)
  have fl: "fst (complex_infos example_fstr example_coex example_decay ''human'' ''c9''
                   lone_complex) = None"
    using tl l by (simp add: el)
  from tl obtain info where
    sl: "snd (complex_infos example_fstr example_coex example_decay ''human'' ''c9''
                lone_complex) = [info]"
    and "\<exists>i j. i < Suc 0 \<and> j < length ([[''4'']] ! i) \<and>
          info = [''c9'', ''4'', uniprot lone_complex ! i ! j,
                  py_str example_fstr (mean_of_partners example_coex [''4''] ''4''),
                  (case example_decay (uniprot lone_complex ! i ! j) of
                     None \<Rightarrow> ''NA'' | Some l \<Rightarrow> l),
                  ''human'']"
    using l by (auto simp: el list_all2_Cons1)
  then have "info = [''c9'', ''4'', ''P4'', ''NA'', ''NA'', ''human'']"
    by (auto simp: m lone_complex_def example_decay_def)
  with fl sl have a: "complex_infos example_fstr example_coex example_decay ''human'' ''c9''
                        lone_complex = (None, [[''c9'', ''4'', ''P4'', ''NA'', ''NA'', ''human'']])"
    by (simp add: prod_eq_iff)
  have fb: "fst (complex_infos example_fstr example_coex example_decay ''human'' ''c1''
                   broken_complex) = Some IndexError"
    using tb b2 by (simp add: eb)
  have lb: "length (snd (complex_infos example_fstr example_coex example_decay ''human'' ''c1''
                  broken_complex)) = 1"
    using tb[THEN conjunct2, THEN list_all2_lengthD] b1 b2 by (simp add: eb)
  from a fb lb show ?thesis by blast
qed

text \<open>
  Claim C9. Every row the table builder builds, for one complex and for the whole list of
  complexes, has six fields, and its coexpression field is \<^verbatim>\<open>'NA'\<close> or the text of a
  finite number: the mean is only taken of a non-empty list, so the not-a-number value of
  an empty mean never reaches a row.
\<close>

theorem coexpression_field_finite_or_NA:
  "(\<forall>info\<in>set (snd (complex_infos fstr coex decay_defs species struc cplx)).
      length info = 6 \<and> (info ! 3 = ''NA'' \<or> (\<exists>r. info ! 3 = fstr (Fin r)))) \<and>
   (\<forall>info\<in>set (snd (strucs_loop fstr coex decay_defs species core ss)).
      length info = 6 \<and> (info ! 3 = ''NA'' \<or> (\<exists>r. info ! 3 = fstr (Fin r))))"
proof -
  have a: "\<forall>info\<in>set (snd (complex_infos fstr coex decay_defs species struc' c)).
      length info = 6 \<and> (info ! 3 = ''NA'' \<or> (\<exists>r. info ! 3 = fstr (Fin r)))" for struc' c
    using complex_infos_member[of fstr coex decay_defs species struc' c] row_of_field
    by metis
  have b: "\<forall>info\<in>set (snd (strucs_loop fstr coex decay_defs species core ss)).
      length info = 6 \<and> (info ! 3 = ''NA'' \<or> (\<exists>r. info ! 3 = fstr (Fin r)))"
    using strucs_loop_rows[of fstr coex decay_defs species core ss] a by blast
  from a b show ?thesis by blast
qed

lemma example_avg_coex:
  "calculate_avg_coexpression example_coex [''1'', ''2'', ''3''] =
     Inr [(''1'', PFloat (Fin (3 / 2))), (''2'', PFloat (Fin 2)), (''3'', PFloat (Fin 1))]"
  by (simp add: calculate_avg_coexpression_def example_coex_def append_cor_def finish_def
      np_mean_def)

lemma example_rows:
  "complex_infos example_fstr example_coex example_decay ''human'' ''c1'' example_complex =
     (None, [[''c1'', ''1'', ''P1'', ''1.5'', ''NED'', ''human''],
             [''c1'', ''3'', ''P3'', ''1.0'', ''ED'', ''human'']])"
proof -
  have c: "concat (entrez example_complex) = [''1'', ''2'', ''3'']"
    by (simp add: example_complex_def)
  have e: "entrez example_complex = [[''1''], [''2'', ''3'']]"
    by (simp add: example_complex_def)
  have a: "example_avg =
     [(''1'', PFloat (Fin (3 / 2))), (''2'', PFloat (Fin 2)), (''3'', PFloat (Fin 1))]"
    by (simp add: example_avg_def)
  have s1: "slot_info example_fstr example_complex example_avg example_decay ''c1'' ''human'' [''1'']
             = Inr [''c1'', ''1'', ''P1'', ''1.5'', ''NED'', ''human'']"
    by (simp add: slot_info_def candidate_tuple_def match_entrez_to_uniprot_def
        example_complex_def upt2 py_get_def example_avg_def example_decay_def decay_get_def
        example_fstr_def)
  have s2: "slot_info example_fstr example_complex example_avg example_decay ''c1'' ''human''
              [''2'', ''3''] = Inr [''c1'', ''3'', ''P3'', ''1.0'', ''ED'', ''human'']"
    unfolding slot_info_def get_best_from_multiple_subs_def example_poss
    by (simp add: rank_key_def less_eq_prod_def example_fstr_def)
  have ci: "complex_infos example_fstr example_coex example_decay ''human'' ''c1'' example_complex
            = slots_loop example_fstr example_complex example_avg example_decay ''c1'' ''human''
                [[''1''], [''2'', ''3'']]"
    by (simp add: complex_infos_def c e example_avg_coex a)
  show ?thesis
    unfolding ci by (simp add: s1 s2)
qed

theorem coexpression_field_finite_or_NA_witness:
  "[''c1'', ''1'', ''P1'', ''1.5'', ''NED'', ''human'']
     \<in> set (snd (complex_infos example_fstr example_coex example_decay ''human'' ''c1''
                   example_complex)) \<and>
   (\<exists>r. [''c1'', ''1'', ''P1'', ''1.5'', ''NED'', ''human''] ! 3 = example_fstr (Fin r))"
proof -
  let ?row = "[''c1'', ''1'', ''P1'', ''1.5'', ''NED'', ''human'']"
  have i: "?row \<in> set (snd (complex_infos example_fstr example_coex example_decay ''human''
                               ''c1'' example_complex))"
    by (simp add: example_rows)
  have "?row ! 3 = ''NA'' \<or> (\<exists>r. ?row ! 3 = example_fstr (Fin r))"
    using coexpression_field_finite_or_NA
      [of example_fstr example_coex example_decay "''human''" "''c1''" example_complex]
      i by blast
  then have "\<exists>r. ?row ! 3 = example_fstr (Fin r)" by simp
  with i show ?thesis by blast
qed

section \<open>Runs of the table builder and of the tester\<close>

lemma title_rat: "py_title ''rat'' = ''Rat''"
  by code_simp

lemma decay_file:
  "load_data (files example_env) ''data/NED_human.txt'' =
     Inr ([''id'', ''def''], [[''P1'', ''NED''], [''P3'', ''ED'']])"
  by (simp add: load_data_def example_env_def file_lines_def newline_def py_split_ws_def
      py_isspace_def)

lemma example_decay_defs:
  "build_decay_defs [[''P1'', ''NED''], [''P3'', ''ED'']] Map.empty = Inr example_decay"
  by (simp add: example_decay_def)

lemma example_table_rows:
  "strucs_loop example_fstr example_coex example_decay ''human'' example_core (strucs example_core)
     = (None, [[''c1'', ''1'', ''P1'', ''1.5'', ''NED'', ''human''],
               [''c1'', ''3'', ''P3'', ''1.0'', ''ED'', ''human'']])"
  by (simp add: example_core_def example_rows)

lemma example_run:
  "process_corum_data example_env ''human'' =
     (None,
      [CalledLoadCorum (py_title ''human'') ''core'', CalledCoexpression,
       OpenRead ''data/NED_human.txt'',
       OpenWrite ''data/coexpressdb_corum_human.tsv'',
       Write ''data/coexpressdb_corum_human.tsv'' header_line,
       Write ''data/coexpressdb_corum_human.tsv''
         (row_line [''c1'', ''1'', ''P1'', ''1.5'', ''NED'', ''human'']),
       Write ''data/coexpressdb_corum_human.tsv''
         (row_line [''c1'', ''3'', ''P3'', ''1.0'', ''ED'', ''human''])])"
proof -
  have l: "LoadCorum example_env (py_title ''human'') ''core'' = Inr example_core"
    and c: "Coexpression example_env = Inr example_coex"
    and f: "float_str example_env = example_fstr"
    by (simp_all add: example_env_def)
  have w: "write_table example_env ''human'' example_core example_coex example_decay =
             (None,
              [OpenWrite ''data/coexpressdb_corum_human.tsv'',
               Write ''data/coexpressdb_corum_human.tsv'' header_line,
               Write ''data/coexpressdb_corum_human.tsv''
                 (row_line [''c1'', ''1'', ''P1'', ''1.5'', ''NED'', ''human'']),
               Write ''data/coexpressdb_corum_human.tsv''
                 (row_line [''c1'', ''3'', ''P3'', ''1.0'', ''ED'', ''human''])])"
    by (simp add: write_table_def f example_table_rows Let_def)
  show ?thesis
    by (simp add: process_corum_data_def l c species_file_def decay_file
        w[unfolded example_decay_def])
qed

text \<open>
  Claim C8, as the code has it. For a species other than \<^verbatim>\<open>human\<close> and \<^verbatim>\<open>mouse\<close> the
  table builder fails, and the only things it has done by then are the calls of the two
  external loaders: it has read no classification file and has not opened the output
  file. When both loaders return, the failure is the unbound variable \<^verbatim>\<open>data\<close>; there
  is no check of the species before the loaders are called.
\<close>

theorem unsupported_species_fails:
  assumes "species \<noteq> ''human''" and "species \<noteq> ''mouse''"
  shows "(\<exists>e. fst (process_corum_data w species) = Some e) \<and>
         (\<forall>ev\<in>set (snd (process_corum_data w species)).
            ev = CalledLoadCorum (py_title species) ''core'' \<or> ev = CalledCoexpression) \<and>
         (\<forall>core coex.
            LoadCorum w (py_title species) ''core'' = Inr core \<and> Coexpression w = Inr coex \<longrightarrow>
            process_corum_data w species =
              (Some UnboundLocalError,
               [CalledLoadCorum (py_title species) ''core'', CalledCoexpression]))"
  using assms
  by (auto simp: process_corum_data_def species_file_def Let_def split: sum.splits)

theorem unsupported_species_fails_witness:
  "fst (process_corum_data example_env ''mouse-ear cress'') = Some UnboundLocalError \<and>
   written ''data/coexpressdb_corum_mouse-ear cress.tsv''
     (snd (process_corum_data example_env ''mouse-ear cress'')) None = None"
proof -
  have h: "''mouse-ear cress'' \<noteq> ''human''" "''mouse-ear cress'' \<noteq> ''mouse''" by simp_all
  have l: "LoadCorum example_env (py_title ''mouse-ear cress'') ''core'' = Inr example_core"
    and c: "Coexpression example_env = Inr example_coex"
    by (simp_all add: example_env_def)
  from unsupported_species_fails[OF h, of example_env] l c
  have "process_corum_data example_env ''mouse-ear cress'' =
          (Some UnboundLocalError,
           [CalledLoadCorum (py_title ''mouse-ear cress'') ''core'', CalledCoexpression])"
    by blast
  then show ?thesis by simp
qed

text \<open>
  Claim C8 as stated fails: for the species \<^verbatim>\<open>rat\<close> the complex database and the
  coexpression source have been loaded when the run fails.
\<close>

theorem loaders_run_before_species_check:
  "process_corum_data example_env ''rat'' =
     (Some UnboundLocalError, [CalledLoadCorum ''Rat'' ''core'', CalledCoexpression])"
  by (simp add: process_corum_data_def species_file_def example_env_def title_rat)

text \<open>
  Claim C6 at a concrete table: the builder writes the header and two rows for the
  example complex; read back by the tester, the table groups to no complex at all, and
  the tester reports no trial.
\<close>

theorem roundtrip_loses_rows:
  "fst (process_corum_data example_env ''human'') = None \<and>
   written ''data/coexpressdb_corum_human.tsv''
     (snd (process_corum_data example_env ''human'')) None = Some example_output \<and>
   group_rows (read_rows example_output) = Inr [] \<and>
   analyse_corum_data False example_shuffle 0 example_float
     [''data/coexpressdb_corum_human.tsv'' \<mapsto> example_output]
     ''data/coexpressdb_corum_human.tsv'' = Inr (0, 0, 1)"
proof -
  have w: "written ''data/coexpressdb_corum_human.tsv''
     (snd (process_corum_data example_env ''human'')) None = Some example_output"
    unfolding example_run by (simp add: example_output_def)
  have g: "group_rows (read_rows example_output) = Inr []"
    by (simp add: read_rows_empty group_rows_def)
  have a: "analyse_corum_data False example_shuffle 0 example_float
     [''data/coexpressdb_corum_human.tsv'' \<mapsto> example_output]
     ''data/coexpressdb_corum_human.tsv'' = Inr (0, 0, 1)"
    by (simp add: analyse_corum_data_def g binom_test_0_0)
  show ?thesis using w g a by (simp add: example_run)
qed

text \<open>
  Without the condition of the comprehension the same lines would group to the two pairs
  of the complex, after a group for the header line.
\<close>

lemma unfiltered_rows:
  "group_rows (all_rows example_output) =
     Inr [(''comp'', [[''uniprot'', ''avg.coex'']]),
          (''c1'', [[''1.5'', ''NED''], [''1.0'', ''ED'']])]"
  by code_simp

lemma run_human:
  assumes "LoadCorum w (py_title ''human'') ''core'' = Inr core"
      and "Coexpression w = Inr coex"
      and "files w = files example_env"
      and "strucs_loop (float_str w) coex example_decay ''human'' core (strucs core) = (err, infos)"
  shows "process_corum_data w ''human'' =
           (err,
            [CalledLoadCorum (py_title ''human'') ''core'', CalledCoexpression,
             OpenRead ''data/NED_human.txt'',
             OpenWrite ''data/coexpressdb_corum_human.tsv'',
             Write ''data/coexpressdb_corum_human.tsv'' header_line]
            @ map (\<lambda>info. Write ''data/coexpressdb_corum_human.tsv'' (row_line info)) infos)"
proof -
  have d: "load_data (files w) ''data/NED_human.txt'' =
             Inr ([''id'', ''def''], [[''P1'', ''NED''], [''P3'', ''ED'']])"
    using decay_file assms(3) by simp
  have w: "write_table w ''human'' core coex example_decay =
             (err,
              [OpenWrite ''data/coexpressdb_corum_human.tsv'',
               Write ''data/coexpressdb_corum_human.tsv'' header_line]
              @ map (\<lambda>info. Write ''data/coexpressdb_corum_human.tsv'' (row_line info)) infos)"
    by (simp add: write_table_def assms(4) Let_def)
  show ?thesis
    by (simp add: process_corum_data_def assms(1) assms(2) species_file_def d
        w[unfolded example_decay_def])
qed

lemma broken_rows:
  "complex_infos example_fstr example_coex example_decay ''human'' ''c1'' broken_complex =
     (Some IndexError, [[''c1'', ''1'', ''P1'', ''1.5'', ''NED'', ''human'']])"
proof -
  have c: "concat (entrez broken_complex) = [''1'', ''2'', ''3'']"
    by (simp add: broken_complex_def)
  have e: "entrez broken_complex = [[''1''], [''2'', ''3'']]"
    by (simp add: broken_complex_def)
  have a: "example_avg =
     [(''1'', PFloat (Fin (3 / 2))), (''2'', PFloat (Fin 2)), (''3'', PFloat (Fin 1))]"
    by (simp add: example_avg_def)
  have s1: "slot_info example_fstr broken_complex example_avg example_decay ''c1'' ''human'' [''1'']
             = Inr [''c1'', ''1'', ''P1'', ''1.5'', ''NED'', ''human'']"
    by (simp add: slot_info_def candidate_tuple_def match_entrez_to_uniprot_def
        broken_complex_def upt2 py_get_def example_avg_def example_decay_def decay_get_def
        example_fstr_def)
  have s2: "slot_info example_fstr broken_complex example_avg example_decay ''c1'' ''human''
              [''2'', ''3''] = Inl IndexError"
    by (simp add: slot_info_def get_best_from_multiple_subs_def candidate_tuple_def
        match_entrez_to_uniprot_def broken_complex_def upt2 py_get_def example_avg_def
        example_decay_def decay_get_def)
  have ci: "complex_infos example_fstr example_coex example_decay ''human'' ''c1'' broken_complex
            = slots_loop example_fstr broken_complex example_avg example_decay ''c1'' ''human''
                [[''1''], [''2'', ''3'']]"
    by (simp add: complex_infos_def c e example_avg_coex a)
  show ?thesis
    unfolding ci by (simp add: s1 s2)
qed

text \<open>
  Claim C7 as stated fails: for a complex whose second slot has an id without an aligned
  uniprot id, the run stops with \<^verbatim>\<open>IndexError\<close> after the output file has been opened
  and the row of the first slot written; the same exception stops a run on a complex
  that has an empty slot and no identifier problem. The code has no error of its own for
  a missing identifier mapping.
\<close>

theorem missing_mapping_is_plain_index_error:
  "process_corum_data broken_env ''human'' =
     (Some IndexError,
      [CalledLoadCorum (py_title ''human'') ''core'', CalledCoexpression,
       OpenRead ''data/NED_human.txt'',
       OpenWrite ''data/coexpressdb_corum_human.tsv'',
       Write ''data/coexpressdb_corum_human.tsv'' header_line,
       Write ''data/coexpressdb_corum_human.tsv''
         (row_line [''c1'', ''1'', ''P1'', ''1.5'', ''NED'', ''human''])]) \<and>
   resolvable gap_complex ''1'' \<and>
   fst (process_corum_data gap_env ''human'') = Some IndexError"
proof -
  have sb: "strucs_loop (float_str broken_env) example_coex example_decay ''human'' broken_core
              (strucs broken_core)
            = (Some IndexError, [[''c1'', ''1'', ''P1'', ''1.5'', ''NED'', ''human'']])"
    by (simp add: broken_env_def example_env_def broken_core_def broken_rows)
  have a: "process_corum_data broken_env ''human'' =
     (Some IndexError,
      [CalledLoadCorum (py_title ''human'') ''core'', CalledCoexpression,
       OpenRead ''data/NED_human.txt'',
       OpenWrite ''data/coexpressdb_corum_human.tsv'',
       Write ''data/coexpressdb_corum_human.tsv'' header_line,
       Write ''data/coexpressdb_corum_human.tsv''
         (row_line [''c1'', ''1'', ''P1'', ''1.5'', ''NED'', ''human''])])"
    using run_human[of broken_env broken_core example_coex, OF _ _ _ sb]
    by (simp add: broken_env_def example_env_def)
  have r: "resolvable gap_complex ''1''"
    by (simp add: resolvable_def first_slot_def gap_complex_def upt2)
  have fg: "failing_slot gap_complex []" by (simp add: failing_slot_def)
  have "fst (complex_infos example_fstr example_coex example_decay ''human'' ''c1'' gap_complex)
          = Some IndexError"
    using complex_infos_char[of example_fstr example_coex example_decay "''human''" "''c1''"
        gap_complex] fg
    by (simp add: gap_complex_def)
  then obtain infos where
    "complex_infos example_fstr example_coex example_decay ''human'' ''c1'' gap_complex
       = (Some IndexError, infos)"
    by (metis prod.collapse)
  then have sg: "strucs_loop (float_str gap_env) example_coex example_decay ''human'' gap_core
              (strucs gap_core) = (Some IndexError, infos)"
    by (simp add: gap_env_def example_env_def gap_core_def)
  have g: "fst (process_corum_data gap_env ''human'') = Some IndexError"
    using run_human[of gap_env gap_core example_coex, OF _ _ _ sg]
    by (simp add: gap_env_def example_env_def)
  from a r g show ?thesis by blast
qed


end
